theory Spec2Isabelle
  imports Complex_Main
begin

section \<open>The store: tables of \<^verbatim>\<open>supabase-schema.sql\<close>\<close>

text \<open>
  Identifiers are the textual form of a UUID, instants are integers on one time line
  (milliseconds). A table is the list of its rows. Column names carry the alias the
  schema's own views use for the table (\<^verbatim>\<open>p\<close>, \<^verbatim>\<open>po\<close>, \<^verbatim>\<open>v\<close>).

  The embedding covers the tables, their declared constraints (primary keys, foreign
  keys with \<^verbatim>\<open>ON DELETE CASCADE\<close>, the \<^verbatim>\<open>unique_user_poll_vote\<close> constraint), the
  two views and the two functions.

  Row level security is enabled on every table. The function \<^verbatim>\<open>cast_vote\<close> is not
  \<^verbatim>\<open>SECURITY DEFINER\<close>: its statements run with the rights of the caller, and the
  policies of \<^verbatim>\<open>votes\<close> are part of its model (the session below). For the requests
  that the service layer and the routes send, the policies are not part of the embedding:
  the statements about them are about sessions for which the policies admit the request.
\<close>

type_synonym uuid = string
type_synonym timestamptz = int

record profiles_row =
  pr_id :: uuid
  pr_email :: string
  pr_name :: string

record polls_row =
  p_id :: uuid
  p_title :: string
  p_description :: "string option"
  p_is_active :: bool
  p_created_by :: uuid
  p_created_at :: timestamptz
  p_expires_at :: "timestamptz option"
  p_updated_at :: timestamptz

record poll_options_row =
  po_id :: uuid
  po_poll_id :: uuid
  po_text :: string
  po_created_at :: timestamptz
  po_updated_at :: timestamptz

record votes_row =
  v_id :: uuid
  v_poll_id :: uuid
  v_option_id :: uuid
  v_user_id :: uuid
  v_created_at :: timestamptz

record database =
  profiles :: "profiles_row list"
  polls :: "polls_row list"
  poll_options :: "poll_options_row list"
  votes :: "votes_row list"

subsection \<open>Declared constraints\<close>

definition votes_pkey :: "database \<Rightarrow> bool" where
  "votes_pkey db = distinct (map v_id (votes db))"

definition unique_user_poll_vote :: "database \<Rightarrow> bool" where
  "unique_user_poll_vote db = distinct (map (\<lambda>v. (v_user_id v, v_poll_id v)) (votes db))"

definition poll_options_pkey :: "database \<Rightarrow> bool" where
  "poll_options_pkey db = distinct (map po_id (poll_options db))"

definition polls_pkey :: "database \<Rightarrow> bool" where
  "polls_pkey db = distinct (map p_id (polls db))"

definition votes_fkeys :: "database \<Rightarrow> bool" where
  "votes_fkeys db =
     list_all (\<lambda>v. v_poll_id v \<in> set (map p_id (polls db))
                  \<and> v_option_id v \<in> set (map po_id (poll_options db))
                  \<and> v_user_id v \<in> set (map pr_id (profiles db))) (votes db)"

definition poll_options_fkey :: "database \<Rightarrow> bool" where
  "poll_options_fkey db =
     list_all (\<lambda>po. po_poll_id po \<in> set (map p_id (polls db))) (poll_options db)"

subsection \<open>Relational operators used by the views\<close>

definition left_join :: "('a \<Rightarrow> 'b \<Rightarrow> bool) \<Rightarrow> 'a list \<Rightarrow> 'b list \<Rightarrow> ('a \<times> 'b option) list" where
  "left_join on xs ys =
     concat (map (\<lambda>x. case filter (on x) ys of
                         [] \<Rightarrow> [(x, None)]
                       | m # ms \<Rightarrow> map (\<lambda>y. (x, Some y)) (m # ms)) xs)"

definition group_by :: "('r \<Rightarrow> 'k) \<Rightarrow> 'r list \<Rightarrow> ('k \<times> 'r list) list" where
  "group_by key rs = map (\<lambda>k. (k, filter (\<lambda>r. key r = k) rs)) (remdups (map key rs))"

text \<open>\<^verbatim>\<open>COUNT(expr)\<close> counts the rows where the expression is not null,
  \<^verbatim>\<open>COUNT(DISTINCT expr)\<close> the distinct non-null values.\<close>

definition count_col :: "('r \<Rightarrow> 'c option) \<Rightarrow> 'r list \<Rightarrow> nat" where
  "count_col e rs = length (filter (\<lambda>r. e r \<noteq> None) rs)"

definition count_distinct :: "('r \<Rightarrow> 'c option) \<Rightarrow> 'r list \<Rightarrow> nat" where
  "count_distinct e rs = length (remdups (List.map_filter e rs))"

subsection \<open>Functions \<^verbatim>\<open>is_poll_active\<close> and \<^verbatim>\<open>cast_vote\<close>\<close>

datatype pg_error = Raised string | Unique_violation | Foreign_key_violation | Insufficient_privilege

text \<open>
  The session of a caller: whether it is exempt from row level security (the owner of the
  tables, a superuser, a role with \<^verbatim>\<open>BYPASSRLS\<close>), and the value of \<^verbatim>\<open>auth.uid()\<close>
  (null when the request carries no user).
\<close>

record session =
  ss_bypassrls :: bool
  ss_uid :: "uuid option"

text \<open>
  The policies of \<^verbatim>\<open>votes\<close>. \<^verbatim>\<open>Authenticated users can vote\<close> is the check of an
  inserted row: \<^verbatim>\<open>auth.uid() = user_id AND EXISTS (SELECT 1 FROM polls WHERE polls.id =
  poll_id AND polls.is_active = true)\<close>; a row that fails it raises an error, before the
  unique indexes are looked at. There is a policy for \<^verbatim>\<open>SELECT\<close> (every row) and one for
  \<^verbatim>\<open>DELETE\<close>, and none for \<^verbatim>\<open>UPDATE\<close>.
\<close>

definition votes_insert_policy :: "session \<Rightarrow> database \<Rightarrow> votes_row \<Rightarrow> bool" where
  "votes_insert_policy s db row =
     (ss_uid s = Some (v_user_id row)
      \<and> list_ex (\<lambda>p. p_id p = v_poll_id row \<and> p_is_active p = True) (polls db))"

text \<open>
  \<^verbatim>\<open>SELECT ... INTO\<close> leaves both variables null when no row matches; the returned
  expression \<^verbatim>\<open>is_active AND (expiry IS NULL OR expiry > now())\<close> is then null
  (\<open>None\<close>).
\<close>

definition is_poll_active :: "timestamptz \<Rightarrow> database \<Rightarrow> uuid \<Rightarrow> bool option" where
  "is_poll_active now db poll_id =
     (case find (\<lambda>p. p_id p = poll_id) (polls db) of
        None \<Rightarrow> None
      | Some p \<Rightarrow> Some (p_is_active p \<and>
                        (case p_expires_at p of None \<Rightarrow> True | Some expiry \<Rightarrow> expiry > now)))"

text \<open>
  \<^verbatim>\<open>INSERT INTO votes\<close>: the unique indexes (primary key and
  \<^verbatim>\<open>unique_user_poll_vote\<close>) are checked when the row is inserted, the foreign keys
  at the end of the statement. The id is the value drawn by \<^verbatim>\<open>uuid_generate_v4()\<close>.
\<close>

definition insert_vote :: "database \<Rightarrow> votes_row \<Rightarrow> pg_error + database" where
  "insert_vote db row =
     (if v_id row \<in> set (map v_id (votes db))
         \<or> (v_user_id row, v_poll_id row) \<in> set (map (\<lambda>v. (v_user_id v, v_poll_id v)) (votes db))
      then Inl Unique_violation
      else if v_poll_id row \<in> set (map p_id (polls db))
              \<and> v_option_id row \<in> set (map po_id (poll_options db))
              \<and> v_user_id row \<in> set (map pr_id (profiles db))
      then Inr (db\<lparr>votes := votes db @ [row]\<rparr>)
      else Inl Foreign_key_violation)"

definition insert_vote_as :: "session \<Rightarrow> database \<Rightarrow> votes_row \<Rightarrow> pg_error + database" where
  "insert_vote_as s db row =
     (if \<not> ss_bypassrls s \<and> \<not> votes_insert_policy s db row
      then Inl Insufficient_privilege
      else insert_vote db row)"

text \<open>
  \<^verbatim>\<open>UPDATE votes SET option_id = p_option_id WHERE poll_id = p_poll_id AND user_id =
  p_user_id RETURNING id\<close>. In a session subject to row level security no row of
  \<^verbatim>\<open>votes\<close> is visible to an \<^verbatim>\<open>UPDATE\<close>, since the table has no policy for it: the
  statement updates no row and raises nothing. In an exempt session the rows of the user
  and the poll are updated, and the foreign key is checked for the rows whose
  \<^verbatim>\<open>option_id\<close> changes.
\<close>

definition update_vote_option ::
  "session \<Rightarrow> database \<Rightarrow> uuid \<Rightarrow> uuid \<Rightarrow> uuid \<Rightarrow> pg_error + (uuid list \<times> database)" where
  "update_vote_option s db p_option_id p_poll_id p_user_id =
     (if \<not> ss_bypassrls s then Inr ([], db)
      else
        (let hit = (\<lambda>v. v_poll_id v = p_poll_id \<and> v_user_id v = p_user_id) in
         if list_ex (\<lambda>v. hit v \<and> v_option_id v \<noteq> p_option_id) (votes db)
            \<and> p_option_id \<notin> set (map po_id (poll_options db))
         then Inl Foreign_key_violation
         else Inr (map v_id (filter hit (votes db)),
                   db\<lparr>votes := map (\<lambda>v. if hit v then v\<lparr>v_option_id := p_option_id\<rparr> else v)
                                    (votes db)\<rparr>)))"

text \<open>
  \<^verbatim>\<open>IF NOT is_poll_active(p_poll_id)\<close> raises only when the function returns false: a
  null condition does not take the branch. \<^verbatim>\<open>RETURNING id INTO v_vote_id\<close> leaves the
  variable null when the update matches no row.
\<close>

definition cast_vote ::
  "session \<Rightarrow> timestamptz \<Rightarrow> uuid \<Rightarrow> database \<Rightarrow> uuid \<Rightarrow> uuid \<Rightarrow> uuid
     \<Rightarrow> pg_error + (uuid option \<times> database)" where
  "cast_vote s now new_id db p_poll_id p_option_id p_user_id =
     (if is_poll_active now db p_poll_id = Some False
      then Inl (Raised ''Poll is not active'')
      else
        (case insert_vote_as s db
                \<lparr>v_id = new_id, v_poll_id = p_poll_id, v_option_id = p_option_id,
                 v_user_id = p_user_id, v_created_at = now\<rparr> of
           Inr db' \<Rightarrow> Inr (Some new_id, db')
         | Inl Unique_violation \<Rightarrow>
             (case update_vote_option s db p_option_id p_poll_id p_user_id of
                Inl e \<Rightarrow> Inl e
              | Inr (ids, db') \<Rightarrow> Inr (case ids of [] \<Rightarrow> None | i # _ \<Rightarrow> Some i, db'))
         | Inl e \<Rightarrow> Inl e))"

subsection \<open>Views \<^verbatim>\<open>poll_details\<close> and \<^verbatim>\<open>poll_options_with_stats\<close>\<close>

record poll_details_row =
  pd_id :: uuid
  pd_title :: string
  pd_description :: "string option"
  pd_is_active :: bool
  pd_created_by :: uuid
  pd_created_at :: timestamptz
  pd_expires_at :: "timestamptz option"
  pd_total_votes :: nat
  pd_creator_name :: "string option"

definition poll_votes_join ::
  "database \<Rightarrow> ((polls_row \<times> votes_row option) \<times> profiles_row option) list" where
  "poll_votes_join db =
     left_join (\<lambda>(p, _) pr. p_created_by p = pr_id pr)
       (left_join (\<lambda>p v. p_id p = v_poll_id v) (polls db) (votes db)) (profiles db)"

definition poll_details :: "database \<Rightarrow> poll_details_row list" where
  "poll_details db =
     List.map_filter
       (\<lambda>((pid, name), rows).
          case rows of
            [] \<Rightarrow> None
          | ((p, _), _) # _ \<Rightarrow>
              Some \<lparr>pd_id = pid, pd_title = p_title p, pd_description = p_description p,
                    pd_is_active = p_is_active p, pd_created_by = p_created_by p,
                    pd_created_at = p_created_at p, pd_expires_at = p_expires_at p,
                    pd_total_votes = count_distinct (\<lambda>((_, v), _). map_option v_id v) rows,
                    pd_creator_name = name\<rparr>)
       (group_by (\<lambda>((p, _), pr). (p_id p, map_option pr_name pr)) (poll_votes_join db))"

text \<open>
  \<^verbatim>\<open>NUMERIC\<close> values are rationals, computed exactly; \<^verbatim>\<open>ROUND(x, d)\<close> on
  \<^verbatim>\<open>NUMERIC\<close> rounds to \<open>d\<close> decimal places, a tie away from zero.
\<close>

definition pg_round :: "rat \<Rightarrow> nat \<Rightarrow> rat" where
  "pg_round x d = sgn x * of_int \<lfloor>\<bar>x\<bar> * 10 ^ d + 1 / 2\<rfloor> / 10 ^ d"

record poll_options_with_stats_row =
  pos_id :: uuid
  pos_poll_id :: uuid
  pos_text :: string
  pos_votes :: nat
  pos_percentage :: rat

definition poll_vote_count :: "database \<Rightarrow> (uuid \<times> nat) list" where
  "poll_vote_count db = map (\<lambda>(poll_id, rows). (poll_id, length rows)) (group_by v_poll_id (votes db))"

definition poll_options_with_stats :: "database \<Rightarrow> poll_options_with_stats_row list" where
  "poll_options_with_stats db =
     List.map_filter
       (\<lambda>((oid, total_votes), rows).
          case rows of
            [] \<Rightarrow> None
          | ((po, _), _) # _ \<Rightarrow>
              Some \<lparr>pos_id = oid, pos_poll_id = po_poll_id po, pos_text = po_text po,
                    pos_votes = count_col (\<lambda>((_, v), _). map_option v_id v) rows,
                    pos_percentage =
                      (case total_votes of
                         None \<Rightarrow> 0
                       | Some n \<Rightarrow>
                           if n > 0
                           then pg_round (of_nat (count_col (\<lambda>((_, v), _). map_option v_id v) rows)
                                            / of_nat n * 100) 1
                           else 0)\<rparr>)
       (group_by (\<lambda>((po, _), c). (po_id po, map_option snd c))
          (left_join (\<lambda>(po, _) (poll_id, _). po_poll_id po = poll_id)
             (left_join (\<lambda>po v. po_id po = v_option_id v) (poll_options db) (votes db))
             (poll_vote_count db)))"

subsection \<open>Sequences of \<^verbatim>\<open>cast_vote\<close> calls\<close>

text \<open>
  Each call of the function is one transaction: a raised error leaves the tables as they
  were. A sequence of calls, by any users and in any order, is run from left to right;
  every call carries its own session, its own instant and its own generated id.
\<close>

record vote_call =
  vc_session :: session
  vc_now :: timestamptz
  vc_new_id :: uuid
  vc_poll_id :: uuid
  vc_option_id :: uuid
  vc_user_id :: uuid

fun cast_votes :: "database \<Rightarrow> vote_call list \<Rightarrow> (pg_error + uuid option) list \<times> database" where
  "cast_votes db [] = ([], db)"
| "cast_votes db (c # cs) =
     (case cast_vote (vc_session c) (vc_now c) (vc_new_id c) db (vc_poll_id c) (vc_option_id c)
             (vc_user_id c) of
        Inl e \<Rightarrow> (Inl e # fst (cast_votes db cs), snd (cast_votes db cs))
      | Inr (i, db1) \<Rightarrow> (Inr i # fst (cast_votes db1 cs), snd (cast_votes db1 cs)))"

text \<open>The users with a vote row on a poll, and the users whose call in a run returned a
  vote id for the poll.\<close>

definition voters :: "database \<Rightarrow> uuid \<Rightarrow> uuid set" where
  "voters db p = set (map v_user_id (filter (\<lambda>v. v_poll_id v = p) (votes db)))"

definition recorded :: "(pg_error + uuid option) \<Rightarrow> bool" where
  "recorded r = (case r of Inr (Some _) \<Rightarrow> True | _ \<Rightarrow> False)"

definition voted_in :: "vote_call list \<Rightarrow> (pg_error + uuid option) list \<Rightarrow> uuid \<Rightarrow> uuid set" where
  "voted_in calls results p =
     set (map (\<lambda>(c, r). vc_user_id c)
            (filter (\<lambda>(c, r). vc_poll_id c = p \<and> recorded r) (zip calls results)))"

definition votes_of :: "database \<Rightarrow> uuid \<Rightarrow> uuid \<Rightarrow> votes_row list" where
  "votes_of db u p = filter (\<lambda>v. v_user_id v = u \<and> v_poll_id v = p) (votes db)"

subsection \<open>A store used as concrete input\<close>

definition example_db :: database where
  "example_db =
     \<lparr>profiles = [\<lparr>pr_id = ''u1'', pr_email = ''ann@example.org'', pr_name = ''Ann''\<rparr>,
                  \<lparr>pr_id = ''u2'', pr_email = ''bob@example.org'', pr_name = ''Bob''\<rparr>,
                  \<lparr>pr_id = ''u3'', pr_email = ''cy@example.org'', pr_name = ''Cy''\<rparr>],
      polls = [\<lparr>p_id = ''p1'', p_title = ''Favorite color?'', p_description = None,
                p_is_active = True, p_created_by = ''u1'', p_created_at = 0,
                p_expires_at = None, p_updated_at = 0\<rparr>],
      poll_options = [\<lparr>po_id = ''oA'', po_poll_id = ''p1'', po_text = ''Red'',
                       po_created_at = 0, po_updated_at = 0\<rparr>,
                      \<lparr>po_id = ''oB'', po_poll_id = ''p1'', po_text = ''Blue'',
                       po_created_at = 0, po_updated_at = 0\<rparr>],
      votes = []\<rparr>"

text \<open>The first and the third call are made in the session of the voting user, the second
  and the fourth in a session exempt from row level security.\<close>

definition example_calls :: "vote_call list" where
  "example_calls =
     [\<lparr>vc_session = \<lparr>ss_bypassrls = False, ss_uid = Some ''u2''\<rparr>,
       vc_now = 1, vc_new_id = ''v1'', vc_poll_id = ''p1'', vc_option_id = ''oA'', vc_user_id = ''u2''\<rparr>,
      \<lparr>vc_session = \<lparr>ss_bypassrls = True, ss_uid = None\<rparr>,
       vc_now = 2, vc_new_id = ''v2'', vc_poll_id = ''p1'', vc_option_id = ''oB'', vc_user_id = ''u2''\<rparr>,
      \<lparr>vc_session = \<lparr>ss_bypassrls = False, ss_uid = Some ''u3''\<rparr>,
       vc_now = 3, vc_new_id = ''v3'', vc_poll_id = ''p1'', vc_option_id = ''oA'', vc_user_id = ''u3''\<rparr>,
      \<lparr>vc_session = \<lparr>ss_bypassrls = True, ss_uid = None\<rparr>,
       vc_now = 4, vc_new_id = ''v4'', vc_poll_id = ''p9'', vc_option_id = ''oA'', vc_user_id = ''u3''\<rparr>]"

section \<open>One vote per user and poll\<close>

lemma set_left_join_row:
  "set (case filter P ys of [] \<Rightarrow> [(x, None)] | m # ms \<Rightarrow> map (\<lambda>y. (x, Some y)) (m # ms)) =
     (if \<exists>y\<in>set ys. P y then (\<lambda>y. (x, Some y)) ` {y \<in> set ys. P y} else {(x, None)})"
proof (cases "filter P ys")
  case Nil
  then show ?thesis by (simp add: filter_empty_conv)
next
  case (Cons m ms)
  then have s: "set (m # ms) = {y \<in> set ys. P y}"
    by (metis set_filter)
  then have "\<exists>y\<in>set ys. P y" by auto
  then show ?thesis using Cons by (simp add: s[symmetric])
qed

lemma set_left_join:
  "set (left_join on xs ys) =
     {(x, Some y) | x y. x \<in> set xs \<and> y \<in> set ys \<and> on x y}
     \<union> {(x, None) | x. x \<in> set xs \<and> (\<forall>y\<in>set ys. \<not> on x y)}"
  unfolding left_join_def set_concat set_map image_image set_left_join_row
  by (auto split: if_splits)

lemma group_by_mem:
  "(k, rows) \<in> set (group_by key rs) \<longleftrightarrow> k \<in> key ` set rs \<and> rows = filter (\<lambda>r. key r = k) rs"
  unfolding group_by_def by auto

lemma insert_vote_Inr:
  "insert_vote db row = Inr db' \<Longrightarrow>
     db' = db\<lparr>votes := votes db @ [row]\<rparr>
     \<and> v_id row \<notin> set (map v_id (votes db))
     \<and> (v_user_id row, v_poll_id row) \<notin> set (map (\<lambda>v. (v_user_id v, v_poll_id v)) (votes db))"
  unfolding insert_vote_def by (auto split: if_splits)

lemma insert_vote_Inl_unique:
  "insert_vote db row = Inl Unique_violation \<Longrightarrow>
     v_id row \<in> set (map v_id (votes db))
     \<or> (v_user_id row, v_poll_id row) \<in> set (map (\<lambda>v. (v_user_id v, v_poll_id v)) (votes db))"
  unfolding insert_vote_def by (auto split: if_splits)

lemma insert_vote_as_Inr:
  "insert_vote_as s db row = Inr db' \<Longrightarrow> insert_vote db row = Inr db'"
  unfolding insert_vote_as_def by (simp split: if_splits)

lemma insert_vote_as_Inl:
  "insert_vote_as s db row = Inl e \<Longrightarrow> e = Insufficient_privilege \<or> insert_vote db row = Inl e"
  unfolding insert_vote_as_def by (simp split: if_splits)

lemma update_vote_option_Inr:
  "update_vote_option s db o' p u = Inr (ids, db') \<Longrightarrow>
     (ids = [] \<and> db' = db)
     \<or> (ids = map v_id (filter (\<lambda>v. v_poll_id v = p \<and> v_user_id v = u) (votes db))
        \<and> db' = db\<lparr>votes := map (\<lambda>v. if v_poll_id v = p \<and> v_user_id v = u then v\<lparr>v_option_id := o'\<rparr> else v) (votes db)\<rparr>)"
  unfolding update_vote_option_def by (auto simp: Let_def split: if_splits)

text \<open>What a call of cast_vote that returns does to the votes table.\<close>

lemma cast_vote_Inr:
  assumes "cast_vote s now new_id db p o' u = Inr (r, db')"
  shows "(r = Some new_id
            \<and> db' = db\<lparr>votes := votes db @ [\<lparr>v_id = new_id, v_poll_id = p, v_option_id = o', v_user_id = u, v_created_at = now\<rparr>]\<rparr>
            \<and> new_id \<notin> set (map v_id (votes db))
            \<and> (u, p) \<notin> set (map (\<lambda>v. (v_user_id v, v_poll_id v)) (votes db)))
         \<or> (db' = db\<lparr>votes := map (\<lambda>v. if v_poll_id v = p \<and> v_user_id v = u then v\<lparr>v_option_id := o'\<rparr> else v) (votes db)\<rparr>
            \<and> (case r of None \<Rightarrow> (u, p) \<notin> set (map (\<lambda>v. (v_user_id v, v_poll_id v)) (votes db))
                       | Some i \<Rightarrow> (u, p) \<in> set (map (\<lambda>v. (v_user_id v, v_poll_id v)) (votes db))))
         \<or> (r = None \<and> db' = db)"
proof (cases "insert_vote_as s db \<lparr>v_id = new_id, v_poll_id = p, v_option_id = o', v_user_id = u, v_created_at = now\<rparr>")
  case (Inr d)
  from insert_vote_Inr[OF insert_vote_as_Inr[OF Inr]] assms Inr show ?thesis
    unfolding cast_vote_def by (auto split: if_splits)
next
  case (Inl e)
  with assms have e: "e = Unique_violation"
    unfolding cast_vote_def by (auto split: if_splits pg_error.splits)
  from assms Inl e obtain ids where
    up: "update_vote_option s db o' p u = Inr (ids, db')" and r: "r = (case ids of [] \<Rightarrow> None | i # _ \<Rightarrow> Some i)"
    unfolding cast_vote_def by (auto split: if_splits sum.splits)
  from update_vote_option_Inr[OF up] show ?thesis
  proof
    assume "ids = [] \<and> db' = db"
    then show ?thesis using r by simp
  next
    assume a: "ids = map v_id (filter (\<lambda>v. v_poll_id v = p \<and> v_user_id v = u) (votes db))
       \<and> db' = db\<lparr>votes := map (\<lambda>v. if v_poll_id v = p \<and> v_user_id v = u then v\<lparr>v_option_id := o'\<rparr> else v) (votes db)\<rparr>"
    then have ids: "ids = map v_id (filter (\<lambda>v. v_poll_id v = p \<and> v_user_id v = u) (votes db))"
      and d: "db' = db\<lparr>votes := map (\<lambda>v. if v_poll_id v = p \<and> v_user_id v = u then v\<lparr>v_option_id := o'\<rparr> else v) (votes db)\<rparr>"
      by simp_all
    have "(ids = []) = ((u, p) \<notin> set (map (\<lambda>v. (v_user_id v, v_poll_id v)) (votes db)))"
      unfolding ids by (auto simp: filter_empty_conv)
    then show ?thesis using d r by (auto split: list.splits option.splits)
  qed
qed

definition revote :: "uuid \<Rightarrow> uuid \<Rightarrow> uuid \<Rightarrow> votes_row \<Rightarrow> votes_row" where
  "revote p u o' v = (if v_poll_id v = p \<and> v_user_id v = u then v\<lparr>v_option_id := o'\<rparr> else v)"

lemma revote_keys [simp]:
  "v_id (revote p u o' v) = v_id v" "v_user_id (revote p u o' v) = v_user_id v"
  "v_poll_id (revote p u o' v) = v_poll_id v"
  by (simp_all add: revote_def)

lemma cast_vote_cases:
  assumes "cast_vote s now new_id db p o' u = Inr (r, db')"
  obtains (ins) "r = Some new_id"
      "votes db' = votes db @ [\<lparr>v_id = new_id, v_poll_id = p, v_option_id = o', v_user_id = u, v_created_at = now\<rparr>]"
      "new_id \<notin> set (map v_id (votes db))"
      "(u, p) \<notin> set (map (\<lambda>v. (v_user_id v, v_poll_id v)) (votes db))"
    | (upd) "votes db' = map (revote p u o') (votes db)"
      "(r \<noteq> None) = ((u, p) \<in> set (map (\<lambda>v. (v_user_id v, v_poll_id v)) (votes db)))"
    | (none) "votes db' = votes db" "r = None"
  using cast_vote_Inr[OF assms] unfolding revote_def[abs_def]
  by (auto split: option.splits)

lemma cast_vote_frame:
  assumes "cast_vote s now new_id db p o' u = Inr (r, db')"
  shows "polls db' = polls db \<and> poll_options db' = poll_options db \<and> profiles db' = profiles db"
  using cast_vote_Inr[OF assms] by auto

lemma cast_vote_constraints:
  assumes "cast_vote s now new_id db p o' u = Inr (r, db')" "votes_pkey db" "unique_user_poll_vote db"
  shows "votes_pkey db' \<and> unique_user_poll_vote db'"
  using assms(1)
proof (cases rule: cast_vote_cases)
  case ins
  then show ?thesis using assms(2,3) unfolding votes_pkey_def unique_user_poll_vote_def by auto
next
  case upd
  then show ?thesis using assms(2,3) unfolding votes_pkey_def unique_user_poll_vote_def
    by (simp add: comp_def)
next
  case none
  then show ?thesis using assms(2,3) unfolding votes_pkey_def unique_user_poll_vote_def by simp
qed

lemma cast_vote_voters:
  assumes "cast_vote s now new_id db p o' u = Inr (r, db')"
  shows "voters db' q = voters db q \<union> (if p = q \<and> recorded (Inr r) then {u} else {})"
  using assms
proof (cases rule: cast_vote_cases)
  case ins
  then show ?thesis unfolding voters_def recorded_def by auto
next
  case upd
  have "map v_user_id (filter (\<lambda>v. v_poll_id v = q) (map (revote p u o') (votes db)))
        = map v_user_id (filter (\<lambda>v. v_poll_id v = q) (votes db))"
    by (induction "votes db") (auto simp: filter_map comp_def)
  then show ?thesis using upd unfolding voters_def recorded_def
    by (auto split: option.splits)
next
  case none
  then show ?thesis unfolding voters_def recorded_def by simp
qed

lemma cast_votes_constraints:
  "votes_pkey db \<Longrightarrow> unique_user_poll_vote db \<Longrightarrow>
   votes_pkey (snd (cast_votes db calls)) \<and> unique_user_poll_vote (snd (cast_votes db calls))"
proof (induction calls arbitrary: db)
  case Nil
  then show ?case by simp
next
  case (Cons c cs)
  show ?case
  proof (cases "cast_vote (vc_session c) (vc_now c) (vc_new_id c) db (vc_poll_id c) (vc_option_id c)
                  (vc_user_id c)")
    case (Inl e)
    then show ?thesis using Cons by simp
  next
    case (Inr x)
    obtain r db1 where x: "x = (r, db1)" by (cases x)
    from cast_vote_constraints[OF Inr[unfolded x] Cons.prems] Cons.IH[of db1]
    show ?thesis using Inr x by simp
  qed
qed

lemma cast_votes_voters:
  "voters (snd (cast_votes db calls)) q = voters db q \<union> voted_in calls (fst (cast_votes db calls)) q"
proof (induction calls arbitrary: db)
  case Nil
  then show ?case by (simp add: voted_in_def)
next
  case (Cons c cs)
  show ?case
  proof (cases "cast_vote (vc_session c) (vc_now c) (vc_new_id c) db (vc_poll_id c) (vc_option_id c)
                  (vc_user_id c)")
    case (Inl e)
    then show ?thesis using Cons[of db] by (simp add: voted_in_def recorded_def)
  next
    case (Inr x)
    obtain r db1 where x: "x = (r, db1)" by (cases x)
    from cast_vote_voters[OF Inr[unfolded x], of q] Cons[of db1]
    show ?thesis using Inr x by (auto simp: voted_in_def)
  qed
qed

lemma cast_votes_frame:
  "polls (snd (cast_votes db calls)) = polls db \<and> poll_options (snd (cast_votes db calls)) = poll_options db
   \<and> profiles (snd (cast_votes db calls)) = profiles db"
proof (induction calls arbitrary: db)
  case Nil
  then show ?case by simp
next
  case (Cons c cs)
  show ?case
  proof (cases "cast_vote (vc_session c) (vc_now c) (vc_new_id c) db (vc_poll_id c) (vc_option_id c)
                  (vc_user_id c)")
    case (Inl e)
    then show ?thesis using Cons[of db] by simp
  next
    case (Inr x)
    obtain r db1 where x: "x = (r, db1)" by (cases x)
    from cast_vote_frame[OF Inr[unfolded x]] Cons[of db1]
    show ?thesis using Inr x by simp
  qed
qed

lemma set_map_filter:
  "set (List.map_filter f xs) = {y. \<exists>x\<in>set xs. f x = Some y}"
  unfolding List.map_filter_def by force

lemma count_distinct_card:
  "count_distinct e rs = card {c. \<exists>r\<in>set rs. e r = Some c}"
proof -
  have "set (List.map_filter e rs) = {c. \<exists>r\<in>set rs. e r = Some c}"
    by (auto simp: set_map_filter)
  then show ?thesis unfolding count_distinct_def
    by (metis length_remdups_card_conv)
qed

lemma poll_votes_join_Some:
  "((p, Some v), pr) \<in> set (poll_votes_join db) \<Longrightarrow> v \<in> set (votes db) \<and> p_id p = v_poll_id v"
  unfolding poll_votes_join_def set_left_join by auto

lemma poll_votes_join_other_vote:
  assumes "((p, ov), pr) \<in> set (poll_votes_join db)" "v \<in> set (votes db)" "v_poll_id v = p_id p"
  shows "((p, Some v), pr) \<in> set (poll_votes_join db)"
  using assms unfolding poll_votes_join_def set_left_join by auto

lemma poll_votes_join_poll:
  "((p, ov), pr) \<in> set (poll_votes_join db) \<Longrightarrow> p \<in> set (polls db)"
  unfolding poll_votes_join_def set_left_join by auto

lemma poll_votes_join_total:
  "p \<in> set (polls db) \<Longrightarrow> \<exists>ov pr. ((p, ov), pr) \<in> set (poll_votes_join db)"
proof -
  assume p: "p \<in> set (polls db)"
  obtain ov where 1: "(p, ov) \<in> set (left_join (\<lambda>p v. p_id p = v_poll_id v) (polls db) (votes db))"
    using p unfolding set_left_join by (cases "\<exists>v\<in>set (votes db). p_id p = v_poll_id v") auto
  show ?thesis
  proof (cases "\<exists>pr\<in>set (profiles db). p_created_by p = pr_id pr")
    case True
    then obtain pr where "pr \<in> set (profiles db)" "p_created_by p = pr_id pr" by auto
    with 1 have "((p, ov), Some pr) \<in> set (poll_votes_join db)"
      unfolding poll_votes_join_def set_left_join[where xs = "left_join _ _ _"] by auto
    then show ?thesis by blast
  next
    case False
    with 1 have "((p, ov), None) \<in> set (poll_votes_join db)"
      unfolding poll_votes_join_def set_left_join[where xs = "left_join _ _ _"] by auto
    then show ?thesis by blast
  qed
qed

lemma group_vote_ids:
  assumes "(pid, name) \<in> (\<lambda>((p, _), pr). (p_id p, map_option pr_name pr)) ` set (poll_votes_join db)"
  shows "{c. \<exists>r\<in>set (filter (\<lambda>r. (\<lambda>((p, _), pr). (p_id p, map_option pr_name pr)) r = (pid, name)) (poll_votes_join db)).
              (\<lambda>((_, v), _). map_option v_id v) r = Some c}
         = v_id ` {v \<in> set (votes db). v_poll_id v = pid}" (is "?L = ?R")
proof
  show "?L \<subseteq> ?R"
    by (auto dest!: poll_votes_join_Some)
next
  from assms obtain p0 ov pr0 where
    r0: "((p0, ov), pr0) \<in> set (poll_votes_join db)" "p_id p0 = pid" "map_option pr_name pr0 = name"
    by auto
  show "?R \<subseteq> ?L"
  proof
    fix c assume "c \<in> ?R"
    then obtain v where v: "v \<in> set (votes db)" "v_poll_id v = pid" "c = v_id v" by auto
    from poll_votes_join_other_vote[OF r0(1) v(1)] v(2) r0(2)
    have "((p0, Some v), pr0) \<in> set (poll_votes_join db)" by simp
    then show "c \<in> ?L" using r0 v
      by (auto intro!: bexI[where x = "((p0, Some v), pr0)"])
  qed
qed

lemma card_votes_of_poll:
  assumes "votes_pkey db" "unique_user_poll_vote db"
  shows "card (v_id ` {v \<in> set (votes db). v_poll_id v = pid}) = card (voters db pid)"
proof -
  let ?S = "{v \<in> set (votes db). v_poll_id v = pid}"
  have i1: "inj_on v_id (set (votes db))"
    using assms(1) unfolding votes_pkey_def by (simp add: distinct_map)
  have i2: "inj_on (\<lambda>v. (v_user_id v, v_poll_id v)) (set (votes db))"
    using assms(2) unfolding unique_user_poll_vote_def by (simp add: distinct_map)
  have "inj_on v_id ?S" using i1 by (auto simp: inj_on_def)
  moreover have "inj_on v_user_id ?S" using i2 by (auto simp: inj_on_def)
  moreover have "voters db pid = v_user_id ` ?S" unfolding voters_def by auto
  ultimately show ?thesis by (simp add: card_image)
qed

lemma poll_details_total_votes:
  assumes "votes_pkey db" "unique_user_poll_vote db" "r \<in> set (poll_details db)"
  shows "pd_total_votes r = card (voters db (pd_id r))"
proof -
  from assms(3) obtain pid name rows where
    g: "((pid, name), rows) \<in> set (group_by (\<lambda>((p, _), pr). (p_id p, map_option pr_name pr)) (poll_votes_join db))"
    and r: "pd_id r = pid" "pd_total_votes r = count_distinct (\<lambda>((_, v), _). map_option v_id v) rows"
    unfolding poll_details_def set_map_filter
    by (auto split: list.splits)
  from g have k: "(pid, name) \<in> (\<lambda>((p, _), pr). (p_id p, map_option pr_name pr)) ` set (poll_votes_join db)"
    and rows: "rows = filter (\<lambda>r. (\<lambda>((p, _), pr). (p_id p, map_option pr_name pr)) r = (pid, name)) (poll_votes_join db)"
    unfolding group_by_mem by auto
  show ?thesis
    unfolding r count_distinct_card rows group_vote_ids[OF k]
    by (rule card_votes_of_poll[OF assms(1,2)])
qed

lemma poll_details_ids:
  "set (map pd_id (poll_details db)) = set (map p_id (polls db))"
proof -
  let ?key = "\<lambda>((p, _), pr). (p_id p, map_option pr_name pr) :: (uuid \<times> string option)"
  have ne: "\<And>k rows. (k, rows) \<in> set (group_by ?key (poll_votes_join db)) \<Longrightarrow> rows \<noteq> []"
    unfolding group_by_mem by (fastforce simp: filter_empty_conv)
  have "set (map pd_id (poll_details db)) = fst ` ?key ` set (poll_votes_join db)" (is "?A = ?B")
  proof
    show "?A \<subseteq> ?B"
      unfolding poll_details_def set_map set_map_filter
      by (auto split: list.splits simp: group_by_mem) force
    show "?B \<subseteq> ?A"
    proof
      fix pid assume "pid \<in> ?B"
      then obtain name where k: "(pid, name) \<in> ?key ` set (poll_votes_join db)" by force
      let ?rows = "filter (\<lambda>r. ?key r = (pid, name)) (poll_votes_join db)"
      have g: "((pid, name), ?rows) \<in> set (group_by ?key (poll_votes_join db))"
        unfolding group_by_mem using k by simp
      from ne[OF g] obtain p ov pr rest where rows: "?rows = ((p, ov), pr) # rest"
        by (cases ?rows) auto
      show "pid \<in> ?A"
        unfolding poll_details_def set_map set_map_filter
        by (rule image_eqI[where x = "\<lparr>pd_id = pid, pd_title = p_title p, pd_description = p_description p,
                    pd_is_active = p_is_active p, pd_created_by = p_created_by p,
                    pd_created_at = p_created_at p, pd_expires_at = p_expires_at p,
                    pd_total_votes = count_distinct (\<lambda>((_, v), _). map_option v_id v) ?rows,
                    pd_creator_name = name\<rparr>"], simp)
           (use g rows in \<open>force intro!: bexI[where x = "((pid, name), ?rows)"]\<close>)
    qed
  qed
  also have "\<dots> = p_id ` set (polls db)"
    using poll_votes_join_poll[of _ _ _ db] poll_votes_join_total[of _ db]
    by (auto simp: image_iff) force
  finally show ?thesis by simp
qed

lemma distinct_map_filter_le1:
  "distinct (map f xs) \<Longrightarrow> length (filter (\<lambda>x. f x = k) xs) \<le> 1"
proof (induction xs)
  case Nil
  then show ?case by simp
next
  case (Cons x xs)
  then have "f x \<notin> f ` set xs" by simp
  then have "f x = k \<Longrightarrow> filter (\<lambda>x. f x = k) xs = []"
    unfolding filter_empty_conv by blast
  with Cons show ?case by auto
qed

text \<open>
  Claim C1. From any votes table that satisfies the primary key and the
  \<^verbatim>\<open>unique_user_poll_vote\<close> constraint, after any finite sequence of \<^verbatim>\<open>cast_vote\<close>
  calls (any sessions, users, polls, options, instants and generated ids, in any order) there is at
  most one vote row for every pair of user and poll; \<^verbatim>\<open>poll_details\<close> has a row for
  every poll, and its \<^verbatim>\<open>total_votes\<close> is the number of distinct users with a vote on
  the poll; these users are the ones who had a vote before, together with the users for
  whom a call of the sequence returned a vote id, however many calls they made.
\<close>

theorem cast_votes_one_vote_per_user_and_poll:
  assumes "votes_pkey db" and "unique_user_poll_vote db"
  shows "length (votes_of (snd (cast_votes db calls)) u p) \<le> 1
       \<and> set (map pd_id (poll_details (snd (cast_votes db calls)))) = set (map p_id (polls db))
       \<and> list_all (\<lambda>r. pd_total_votes r = card (voters (snd (cast_votes db calls)) (pd_id r)))
            (poll_details (snd (cast_votes db calls)))
       \<and> voters (snd (cast_votes db calls)) p
           = voters db p \<union> voted_in calls (fst (cast_votes db calls)) p"
proof -
  let ?db' = "snd (cast_votes db calls)"
  from cast_votes_constraints[OF assms] have c: "votes_pkey ?db'" "unique_user_poll_vote ?db'"
    by simp_all
  have "votes_of ?db' u p = filter (\<lambda>v. (v_user_id v, v_poll_id v) = (u, p)) (votes ?db')"
    unfolding votes_of_def by simp
  then have 1: "length (votes_of ?db' u p) \<le> 1"
    using c(2) distinct_map_filter_le1[of "\<lambda>v. (v_user_id v, v_poll_id v)" "votes ?db'" "(u, p)"]
    unfolding unique_user_poll_vote_def by simp
  have 2: "set (map pd_id (poll_details ?db')) = set (map p_id (polls db))"
    using poll_details_ids[of ?db'] cast_votes_frame[of db calls] by simp
  have 3: "list_all (\<lambda>r. pd_total_votes r = card (voters ?db' (pd_id r))) (poll_details ?db')"
    unfolding list_all_iff using poll_details_total_votes[OF c] by blast
  show ?thesis using 1 2 3 cast_votes_voters[of db calls p] by blast
qed


lemma example_run:
  "cast_votes example_db example_calls =
     ([Inr (Some ''v1''), Inr (Some ''v1''), Inr (Some ''v3''), Inl Foreign_key_violation],
      example_db\<lparr>votes := [\<lparr>v_id = ''v1'', v_poll_id = ''p1'', v_option_id = ''oB'', v_user_id = ''u2'', v_created_at = 1\<rparr>,
                           \<lparr>v_id = ''v3'', v_poll_id = ''p1'', v_option_id = ''oA'', v_user_id = ''u3'', v_created_at = 3\<rparr>]\<rparr>)"
  by (simp add: example_db_def example_calls_def cast_vote_def is_poll_active_def insert_vote_def
        insert_vote_as_def votes_insert_policy_def update_vote_option_def)

theorem cast_votes_one_vote_per_user_and_poll_witness:
  "votes_pkey example_db \<and> unique_user_poll_vote example_db
   \<and> length (votes_of (snd (cast_votes example_db example_calls)) ''u2'' ''p1'') \<le> 1
   \<and> map pd_total_votes (poll_details (snd (cast_votes example_db example_calls))) = [2]
   \<and> voters (snd (cast_votes example_db example_calls)) ''p1'' = {''u2'', ''u3''}
   \<and> length example_calls = 4"
proof -
  have h: "votes_pkey example_db" "unique_user_poll_vote example_db"
    by (simp_all add: votes_pkey_def unique_user_poll_vote_def example_db_def)
  have v: "voted_in example_calls (fst (cast_votes example_db example_calls)) ''p1'' = {''u2'', ''u3''}"
    unfolding example_run by (auto simp: voted_in_def example_calls_def recorded_def)
  have d: "map pd_id (poll_details (snd (cast_votes example_db example_calls))) = [''p1'']"
    unfolding example_run
    by (simp add: example_db_def poll_details_def poll_votes_join_def left_join_def group_by_def
        List.map_filter_def)
  have e: "voters example_db ''p1'' = {}" by (simp add: voters_def example_db_def)
  let ?db' = "snd (cast_votes example_db example_calls)"
  from cast_votes_one_vote_per_user_and_poll[OF h, of example_calls "''u2''" "''p1''"]
  have 1: "length (votes_of ?db' ''u2'' ''p1'') \<le> 1"
    and 3: "list_all (\<lambda>r. pd_total_votes r = card (voters ?db' (pd_id r))) (poll_details ?db')"
    and 4: "voters ?db' ''p1'' = voters example_db ''p1'' \<union> voted_in example_calls (fst (cast_votes example_db example_calls)) ''p1''"
    by blast+
  from 4 have vs: "voters ?db' ''p1'' = {''u2'', ''u3''}" unfolding v e by simp
  from d obtain r where r: "poll_details ?db' = [r]" "pd_id r = ''p1''"
    by (cases "poll_details ?db'") auto
  from 3 have "pd_total_votes r = 2" unfolding r using vs r(2) by simp
  then show ?thesis using h 1 vs r by (simp add: example_calls_def)
qed

section \<open>Percentages of the options-with-stats view\<close>

definition option_votes :: "database \<Rightarrow> uuid \<Rightarrow> nat" where
  "option_votes db oid = length (filter (\<lambda>v. v_option_id v = oid) (votes db))"

definition poll_total :: "database \<Rightarrow> uuid \<Rightarrow> nat" where
  "poll_total db pid = length (filter (\<lambda>v. v_poll_id v = pid) (votes db))"

definition option_join :: "database \<Rightarrow> poll_options_row \<Rightarrow> (poll_options_row \<times> votes_row option) list" where
  "option_join db po =
     (case filter (\<lambda>v. po_id po = v_option_id v) (votes db) of
        [] \<Rightarrow> [(po, None)]
      | m # ms \<Rightarrow> map (\<lambda>v. (po, Some v)) (m # ms))"

definition option_total :: "database \<Rightarrow> poll_options_row \<Rightarrow> (uuid \<times> nat) option" where
  "option_total db po =
     (if poll_total db (po_poll_id po) > 0 then Some (po_poll_id po, poll_total db (po_poll_id po))
      else None)"

lemma filter_key_distinct:
  "distinct ks \<Longrightarrow>
   filter (\<lambda>(a, _). k = a) (map (\<lambda>a. (a, g a)) ks) = (if k \<in> set ks then [(k, g k)] else [])"
proof (induction ks)
  case Nil
  then show ?case by simp
next
  case (Cons a ks)
  then show ?case by (auto simp: filter_empty_conv)
qed

lemma poll_vote_count_filter:
  "filter (\<lambda>(poll_id, _). pid = poll_id) (poll_vote_count db)
     = (if poll_total db pid > 0 then [(pid, poll_total db pid)] else [])"
proof -
  have m: "poll_vote_count db
      = map (\<lambda>a. (a, length (filter (\<lambda>v. v_poll_id v = a) (votes db)))) (remdups (map v_poll_id (votes db)))"
    unfolding poll_vote_count_def group_by_def by simp
  have "(pid \<in> set (remdups (map v_poll_id (votes db)))) = (poll_total db pid > 0)"
    unfolding poll_total_def by (auto simp: filter_empty_conv)
  then show ?thesis
    unfolding m
    using filter_key_distinct[where ks = "remdups (map v_poll_id (votes db))" and k = pid
        and g = "\<lambda>a. length (filter (\<lambda>v. v_poll_id v = a) (votes db))"]
    by (simp add: poll_total_def)
qed

lemma concat_map_singleton:
  "(\<And>x. x \<in> set xs \<Longrightarrow> F x = [g x]) \<Longrightarrow> concat (map F xs) = map g xs"
  by (induction xs) auto

lemma stats_join:
  "left_join (\<lambda>(po, _) (poll_id, _). po_poll_id po = poll_id)
     (left_join (\<lambda>po v. po_id po = v_option_id v) (poll_options db) (votes db))
     (poll_vote_count db)
   = concat (map (\<lambda>po. map (\<lambda>x. (x, option_total db po)) (option_join db po)) (poll_options db))"
proof -
  have j1: "left_join (\<lambda>po v. po_id po = v_option_id v) (poll_options db) (votes db)
            = concat (map (option_join db) (poll_options db))"
    unfolding left_join_def option_join_def ..
  have fst_po: "\<And>po x. x \<in> set (option_join db po) \<Longrightarrow> fst x = po"
    unfolding option_join_def by (auto split: list.splits)
  have row: "\<And>po x. x \<in> set (option_join db po) \<Longrightarrow>
      (case filter ((\<lambda>(po, _) (poll_id, _). po_poll_id po = poll_id) x) (poll_vote_count db) of
         [] \<Rightarrow> [(x, None)] | m # ms \<Rightarrow> map (\<lambda>y. (x, Some y)) (m # ms)) = [(x, option_total db po)]"
  proof -
    fix po x assume "x \<in> set (option_join db po)"
    then have x: "fst x = po" by (rule fst_po)
    have eq: "(\<lambda>(po, _) (poll_id, _). po_poll_id po = poll_id) x = (\<lambda>(poll_id, _). po_poll_id po = poll_id)"
      using x by (cases x) auto
    show "(case filter ((\<lambda>(po, _) (poll_id, _). po_poll_id po = poll_id) x) (poll_vote_count db) of
         [] \<Rightarrow> [(x, None)] | m # ms \<Rightarrow> map (\<lambda>y. (x, Some y)) (m # ms)) = [(x, option_total db po)]"
      unfolding eq poll_vote_count_filter by (simp add: option_total_def)
  qed
  have "\<And>pos. concat (map (\<lambda>x. case filter ((\<lambda>(po, _) (poll_id, _). po_poll_id po = poll_id) x) (poll_vote_count db) of
         [] \<Rightarrow> [(x, None)] | m # ms \<Rightarrow> map (\<lambda>y. (x, Some y)) (m # ms)) (concat (map (option_join db) pos)))
      = concat (map (\<lambda>po. map (\<lambda>x. (x, option_total db po)) (option_join db po)) pos)"
  proof -
    fix pos show "?thesis pos"
    proof (induction pos)
      case Nil
      then show ?case by simp
    next
      case (Cons a pos)
      have "concat (map (\<lambda>x. case filter ((\<lambda>(po, _) (poll_id, _). po_poll_id po = poll_id) x) (poll_vote_count db) of
         [] \<Rightarrow> [(x, None)] | m # ms \<Rightarrow> map (\<lambda>y. (x, Some y)) (m # ms)) (option_join db a))
          = map (\<lambda>x. (x, option_total db a)) (option_join db a)"
        by (rule concat_map_singleton) (erule row)
      then show ?case
        using Cons by simp
    qed
  qed
  then show ?thesis
    unfolding left_join_def[of "\<lambda>(po, _) (poll_id, _). po_poll_id po = poll_id"] j1 .
qed


text \<open>
  The percentage in the words of the specification: \<open>100 k / N\<close> rounded to one decimal
  place when \<open>N > 0\<close>, else 0; and the row the specification expects for an option.
\<close>

definition percentage_spec :: "nat \<Rightarrow> nat \<Rightarrow> rat" where
  "percentage_spec k N = (if N > 0 then of_int (round (100 * of_nat k / of_nat N * 10 :: rat)) / 10 else 0)"

definition stats_row :: "database \<Rightarrow> poll_options_row \<Rightarrow> poll_options_with_stats_row" where
  "stats_row db po =
     \<lparr>pos_id = po_id po, pos_poll_id = po_poll_id po, pos_text = po_text po,
      pos_votes = option_votes db (po_id po),
      pos_percentage = percentage_spec (option_votes db (po_id po)) (poll_total db (po_poll_id po))\<rparr>"

lemma pg_round_nonneg:
  "0 \<le> x \<Longrightarrow> pg_round x 1 = of_int (round (x * 10)) / 10"
proof (cases "x = 0")
  case True
  then show ?thesis by (simp add: pg_round_def)
next
  case False
  assume "0 \<le> x"
  with False have "0 < x" by simp
  then show ?thesis unfolding pg_round_def round_def by simp
qed

lemma pg_round_percentage:
  "N > 0 \<Longrightarrow> pg_round (of_nat k / of_nat N * 100) 1 = percentage_spec k N"
  unfolding percentage_spec_def using pg_round_nonneg[of "of_nat k / of_nat N * 100"]
  by (simp add: field_simps)

lemma option_join_fst: "x \<in> set (option_join db po) \<Longrightarrow> fst x = po"
  unfolding option_join_def by (auto split: list.splits)

lemma option_join_not_Nil: "option_join db po \<noteq> []"
  unfolding option_join_def by (auto split: list.splits)

lemma option_join_count:
  "count_col (\<lambda>((_, v), _). map_option v_id v) (map (\<lambda>x. (x, c)) (option_join db po))
     = option_votes db (po_id po)"
proof -
  have e: "(\<lambda>v. po_id po = v_option_id v) = (\<lambda>v. v_option_id v = po_id po)" by auto
  show ?thesis
    unfolding option_join_def count_col_def option_votes_def e
    by (cases "filter (\<lambda>v. v_option_id v = po_id po) (votes db)") (simp_all add: comp_def)
qed

definition stats_rows :: "database \<Rightarrow> poll_options_row list \<Rightarrow>
    ((poll_options_row \<times> votes_row option) \<times> (uuid \<times> nat) option) list" where
  "stats_rows db pos = concat (map (\<lambda>po. map (\<lambda>x. (x, option_total db po)) (option_join db po)) pos)"

lemma stats_rows_group:
  "distinct (map po_id pos) \<Longrightarrow>
   filter (\<lambda>r. (\<lambda>((po, _), c). (po_id po, map_option snd c)) r = (oid, tot)) (stats_rows db pos)
     = (case find (\<lambda>po. po_id po = oid) pos of
          None \<Rightarrow> []
        | Some po \<Rightarrow> if map_option snd (option_total db po) = tot
                     then map (\<lambda>x. (x, option_total db po)) (option_join db po) else [])"
proof (induction pos)
  case Nil
  then show ?case by (simp add: stats_rows_def)
next
  case (Cons a pos)
  have rows_a: "filter (\<lambda>r. (\<lambda>((po, _), c). (po_id po, map_option snd c)) r = (oid, tot))
                  (map (\<lambda>x. (x, option_total db a)) (option_join db a))
        = (if po_id a = oid \<and> map_option snd (option_total db a) = tot
           then map (\<lambda>x. (x, option_total db a)) (option_join db a) else [])"
    by (auto simp: filter_empty_conv filter_id_conv split_beta dest!: option_join_fst)
  have rest: "po_id a = oid \<Longrightarrow> find (\<lambda>po. po_id po = oid) pos = None"
    using Cons.prems by (auto simp: find_None_iff) (metis imageI)
  show ?case
    using Cons rows_a rest by (auto simp: stats_rows_def)
qed

lemma find_distinct_key:
  "distinct (map f xs) \<Longrightarrow> x \<in> set xs \<Longrightarrow> find (\<lambda>y. f y = f x) xs = Some x"
  by (induction xs) force+

lemma stats_view_rows:
  assumes "poll_options_pkey db"
  shows "set (poll_options_with_stats db) = stats_row db ` set (poll_options db)"
proof -
  let ?key = "\<lambda>((po, _), c). (po_id po, map_option snd c) :: uuid \<times> nat option"
  let ?J = "stats_rows db (poll_options db)"
  let ?mk = "\<lambda>((oid, total_votes), rows).
          case rows of
            [] \<Rightarrow> None
          | ((po, _), _) # _ \<Rightarrow>
              Some \<lparr>pos_id = oid, pos_poll_id = po_poll_id po, pos_text = po_text po,
                    pos_votes = count_col (\<lambda>((_, v), _). map_option v_id v) rows,
                    pos_percentage =
                      (case total_votes of
                         None \<Rightarrow> 0
                       | Some n \<Rightarrow>
                           if n > 0
                           then pg_round (of_nat (count_col (\<lambda>((_, v), _). map_option v_id v) rows)
                                            / of_nat n * 100) 1
                           else 0)\<rparr>"
  have d: "distinct (map po_id (poll_options db))" using assms unfolding poll_options_pkey_def .
  have view: "poll_options_with_stats db = List.map_filter ?mk (group_by ?key ?J)"
    unfolding poll_options_with_stats_def stats_join stats_rows_def ..
  have keys: "?key ` set ?J = (\<lambda>po. (po_id po, map_option snd (option_total db po))) ` set (poll_options db)"
  proof -
    have "\<And>po. po \<in> set (poll_options db) \<Longrightarrow> \<exists>x. x \<in> set (option_join db po)"
      using option_join_not_Nil by (metis last_in_set)
    then show ?thesis
      unfolding stats_rows_def
      by (auto simp: image_iff split_beta dest!: option_join_fst) (metis fst_conv option_join_fst)+
  qed
  have row: "\<And>po. po \<in> set (poll_options db) \<Longrightarrow>
     ?mk ((po_id po, map_option snd (option_total db po)),
          filter (\<lambda>r. ?key r = (po_id po, map_option snd (option_total db po))) ?J) = Some (stats_row db po)"
  proof -
    fix po assume po: "po \<in> set (poll_options db)"
    have f: "find (\<lambda>po'. po_id po' = po_id po) (poll_options db) = Some po"
      using find_distinct_key[OF d po] .
    let ?c = "option_total db po"
    let ?R = "map (\<lambda>x. (x, ?c)) (option_join db po)"
    have ne: "?R \<noteq> []" using option_join_not_Nil[of db po] by simp
    have hd: "fst (fst (hd ?R)) = po"
      using option_join_not_Nil[of db po] option_join_fst[of "hd (option_join db po)" db po]
      by (simp add: hd_map)
    have cnt: "count_col (\<lambda>((_, v), _). map_option v_id v) ?R = option_votes db (po_id po)"
      by (rule option_join_count)
    have pct: "(case map_option snd ?c of
                  None \<Rightarrow> 0
                | Some n \<Rightarrow> if n > 0 then pg_round (of_nat (option_votes db (po_id po)) / of_nat n * 100) 1 else 0)
               = percentage_spec (option_votes db (po_id po)) (poll_total db (po_poll_id po))"
    proof (cases "0 < poll_total db (po_poll_id po)")
      case True
      then show ?thesis
        unfolding option_total_def
        using pg_round_percentage[OF True, of "option_votes db (po_id po)"] by simp
    next
      case False
      then show ?thesis unfolding option_total_def percentage_spec_def by simp
    qed
    obtain x xs where R: "?R = x # xs" using ne by (cases ?R) auto
    have x: "fst (fst x) = po" using hd unfolding R by simp
    have "?mk ((po_id po, map_option snd ?c), ?R)
          = Some \<lparr>pos_id = po_id po, pos_poll_id = po_poll_id po, pos_text = po_text po,
                  pos_votes = count_col (\<lambda>((_, v), _). map_option v_id v) ?R,
                  pos_percentage =
                    (case map_option snd ?c of
                       None \<Rightarrow> 0
                     | Some n \<Rightarrow>
                         if n > 0
                         then pg_round (of_nat (count_col (\<lambda>((_, v), _). map_option v_id v) ?R)
                                          / of_nat n * 100) 1
                         else 0)\<rparr>"
      using x unfolding R by (cases x) (auto simp: split_beta)
    also have "\<dots> = Some (stats_row db po)"
      unfolding cnt pct stats_row_def ..
    finally have "?mk ((po_id po, map_option snd ?c), ?R) = Some (stats_row db po)" .
    then show "?mk ((po_id po, map_option snd (option_total db po)),
          filter (\<lambda>r. ?key r = (po_id po, map_option snd (option_total db po))) ?J) = Some (stats_row db po)"
      unfolding stats_rows_group[OF d] f by simp
  qed
  show ?thesis
  proof (intro set_eqI iffI)
    fix r assume "r \<in> set (poll_options_with_stats db)"
    then obtain k rows where g: "(k, rows) \<in> set (group_by ?key ?J)" and m: "?mk (k, rows) = Some r"
      unfolding view set_map_filter by auto
    from g have "k \<in> ?key ` set ?J" and rows: "rows = filter (\<lambda>r. ?key r = k) ?J"
      unfolding group_by_mem by auto
    then obtain po where po: "po \<in> set (poll_options db)"
      and k: "k = (po_id po, map_option snd (option_total db po))"
      unfolding keys by auto
    from row[OF po] m have "r = stats_row db po" unfolding rows k by simp
    then show "r \<in> stats_row db ` set (poll_options db)" using po by simp
  next
    fix r assume "r \<in> stats_row db ` set (poll_options db)"
    then obtain po where po: "po \<in> set (poll_options db)" and r: "r = stats_row db po" by auto
    let ?k = "(po_id po, map_option snd (option_total db po))"
    have "?k \<in> ?key ` set ?J" unfolding keys using po by simp
    then have "(?k, filter (\<lambda>r. ?key r = ?k) ?J) \<in> set (group_by ?key ?J)"
      unfolding group_by_mem by simp
    with row[OF po] show "r \<in> set (poll_options_with_stats db)"
      unfolding view set_map_filter r by blast
  qed
qed


definition example_voted_db :: database where
  "example_voted_db =
     example_db\<lparr>votes :=
       [\<lparr>v_id = ''v1'', v_poll_id = ''p1'', v_option_id = ''oB'', v_user_id = ''u2'', v_created_at = 1\<rparr>,
        \<lparr>v_id = ''v3'', v_poll_id = ''p1'', v_option_id = ''oA'', v_user_id = ''u3'', v_created_at = 3\<rparr>,
        \<lparr>v_id = ''v5'', v_poll_id = ''p1'', v_option_id = ''oB'', v_user_id = ''u1'', v_created_at = 5\<rparr>]\<rparr>"

lemma percentage_spec_error:
  "N > 0 \<Longrightarrow> \<bar>percentage_spec k N - 100 * of_nat k / of_nat N\<bar> \<le> 1 / 20"
proof -
  assume N: "N > 0"
  let ?x = "100 * of_nat k / of_nat N * 10 :: rat"
  have "\<bar>of_int (round ?x) - ?x\<bar> \<le> 1 / 2" by (rule of_int_round_abs_le)
  then have "\<bar>of_int (round ?x) / 10 - ?x / 10\<bar> \<le> 1 / 20"
    by (simp add: abs_le_iff field_simps)
  then show ?thesis using N unfolding percentage_spec_def by simp
qed

text \<open>
  Claim C9. For every poll option the view \<^verbatim>\<open>poll_options_with_stats\<close> has exactly one
  row; its \<^verbatim>\<open>votes\<close> is the number \<open>k\<close> of votes for the option, and its
  \<^verbatim>\<open>percentage\<close> is \<open>100 k / N\<close> rounded to one decimal place when the number \<open>N\<close> of
  votes on the option's poll is positive, and 0 when \<open>N = 0\<close>. The rounded value is
  within 0.05 of \<open>100 k / N\<close>.
\<close>

theorem poll_options_with_stats_percentage:
  assumes "poll_options_pkey db"
  shows "set (poll_options_with_stats db) = stats_row db ` set (poll_options db)
       \<and> list_all (\<lambda>r. pos_votes r = option_votes db (pos_id r)
                      \<and> pos_percentage r = percentage_spec (pos_votes r) (poll_total db (pos_poll_id r)))
            (poll_options_with_stats db)
       \<and> percentage_spec k 0 = 0
       \<and> (0 < N \<longrightarrow> \<bar>percentage_spec k N - 100 * of_nat k / of_nat N\<bar> \<le> 1 / 20)"
proof -
  have s: "set (poll_options_with_stats db) = stats_row db ` set (poll_options db)"
    by (rule stats_view_rows[OF assms])
  have "list_all (\<lambda>r. pos_votes r = option_votes db (pos_id r)
                      \<and> pos_percentage r = percentage_spec (pos_votes r) (poll_total db (pos_poll_id r)))
            (poll_options_with_stats db)"
    unfolding list_all_iff s by (auto simp: stats_row_def)
  then show ?thesis using s percentage_spec_error[of N k] by (simp add: percentage_spec_def)
qed

lemma example_voted_stats:
  "map (\<lambda>r. (pos_id r, pos_votes r, pos_percentage r)) (poll_options_with_stats example_voted_db)
     = [(''oA'', 1, 333 / 10), (''oB'', 2, 667 / 10)]"
  by code_simp

theorem poll_options_with_stats_percentage_witness:
  "poll_options_pkey example_voted_db
   \<and> map (\<lambda>r. (pos_id r, pos_votes r, pos_percentage r)) (poll_options_with_stats example_voted_db)
       = [(''oA'', 1, 333 / 10), (''oB'', 2, 667 / 10)]
   \<and> list_all (\<lambda>r. pos_percentage r = percentage_spec (pos_votes r) (poll_total example_voted_db (pos_poll_id r)))
       (poll_options_with_stats example_voted_db)
   \<and> poll_total example_voted_db ''p1'' = 3
   \<and> \<bar>percentage_spec 1 3 - 100 * 1 / 3\<bar> \<le> 1 / 20"
proof -
  have h: "poll_options_pkey example_voted_db"
    by (simp add: poll_options_pkey_def example_voted_db_def example_db_def)
  have t: "poll_total example_voted_db ''p1'' = 3"
    by (simp add: poll_total_def example_voted_db_def example_db_def)
  from poll_options_with_stats_percentage[OF h, of 1 3]
  show ?thesis using h t example_voted_stats by (simp add: list_all_iff)
qed

section \<open>The service layer\<close>

subsection \<open>Errors and responses (\<^verbatim>\<open>error-handler\<close>, \<^verbatim>\<open>auth-utils.ts\<close>, \<^verbatim>\<open>validation.ts\<close>)\<close>

record field_error =
  fe_field :: string
  fe_message :: string

text \<open>
  The classes of thrown values. \<^verbatim>\<open>AuthError\<close> (\<^verbatim>\<open>auth-utils.ts\<close>) and
  \<^verbatim>\<open>ValidationError\<close> (\<^verbatim>\<open>validation.ts\<close>) extend \<^verbatim>\<open>Error\<close>;
  \<^verbatim>\<open>AuthenticationError\<close> extends \<^verbatim>\<open>PollOperationError\<close> with the code
  \<^verbatim>\<open>AUTHENTICATION_ERROR\<close>; \<^verbatim>\<open>ReferenceError\<close> is what evaluating an unbound
  identifier throws.
\<close>

datatype exn =
    AuthError string string
  | ValidationError string "field_error list"
  | PollOperationError string string
  | AuthenticationError string
  | ReferenceError string

fun instanceof_AuthenticationError :: "exn \<Rightarrow> bool" where
  "instanceof_AuthenticationError (AuthenticationError _) = True"
| "instanceof_AuthenticationError _ = False"

fun instanceof_PollOperationError :: "exn \<Rightarrow> bool" where
  "instanceof_PollOperationError (PollOperationError _ _) = True"
| "instanceof_PollOperationError (AuthenticationError _) = True"
| "instanceof_PollOperationError _ = False"

fun error_message :: "exn \<Rightarrow> string" where
  "error_message (AuthError m _) = m"
| "error_message (ValidationError m _) = m"
| "error_message (PollOperationError m _) = m"
| "error_message (AuthenticationError m) = m"
| "error_message (ReferenceError n) = n @ '' is not defined''"

fun error_code :: "exn \<Rightarrow> string option" where
  "error_code (AuthError _ c) = Some c"
| "error_code (PollOperationError _ c) = Some c"
| "error_code (AuthenticationError _) = Some ''AUTHENTICATION_ERROR''"
| "error_code _ = None"

text \<open>The response envelope, without its \<^verbatim>\<open>timestamp\<close> field.\<close>

datatype 'a ApiResponse =
    ApiSuccess 'a
  | ApiError string "string option" "field_error list option"

definition createErrorResponse :: "string \<Rightarrow> string option \<Rightarrow> 'a ApiResponse" where
  "createErrorResponse error code = ApiError error code None"

definition createSuccessResponse :: "'a \<Rightarrow> 'a ApiResponse" where
  "createSuccessResponse data = ApiSuccess data"

text \<open>
  The \<^verbatim>\<open>catch\<close> block shared by the operations of \<^verbatim>\<open>PollService\<close>; they differ in
  the message of the last case only.
\<close>

definition catch_block :: "string \<Rightarrow> exn \<Rightarrow> 'a ApiResponse" where
  "catch_block unexpected error =
     (if instanceof_AuthenticationError error
      then createErrorResponse (error_message error) (error_code error)
      else if instanceof_PollOperationError error
      then createErrorResponse (error_message error) (error_code error)
      else createErrorResponse unexpected (Some ''UNKNOWN_ERROR''))"

fun failure_code :: "'a ApiResponse \<Rightarrow> string option" where
  "failure_code (ApiSuccess _) = None"
| "failure_code (ApiError _ code _) = code"

subsection \<open>Validation (\<^verbatim>\<open>validation.ts\<close>)\<close>

text \<open>
  A string of the model is a JavaScript string whose code units are all below 256 (Basic
  Latin and Latin-1 Supplement); a character stands for the code unit of its number, and
  the length of the list is the \<^verbatim>\<open>length\<close> of the string. \<^verbatim>\<open>trim\<close> and
  \<^verbatim>\<open>toLowerCase\<close> are the methods of \<^verbatim>\<open>String.prototype\<close> on these strings. In this
  range the white space and line terminator code units are 9 to 13, 32 and 160 (no-break
  space); the code units with another lower case form are 65 to 90 (A to Z) and 192 to 222
  without 215 (the multiplication sign), and the lower case form is 32 higher.
\<close>

definition is_space :: "char \<Rightarrow> bool" where
  "is_space c = (of_char c \<in> {9, 10, 11, 12, 13, 32, 160 :: nat})"

definition trim :: "string \<Rightarrow> string" where
  "trim s = rev (dropWhile is_space (rev (dropWhile is_space s)))"

definition toLowerCase :: "string \<Rightarrow> string" where
  "toLowerCase s =
     map (\<lambda>c. if (65 \<le> (of_char c :: nat) \<and> (of_char c :: nat) \<le> 90)
                 \<or> (192 \<le> (of_char c :: nat) \<and> (of_char c :: nat) \<le> 222
                     \<and> (of_char c :: nat) \<noteq> 215)
              then char_of (of_char c + 32 :: nat) else c) s"

fun string_of_nat :: "nat \<Rightarrow> string" where
  "string_of_nat n =
     (if n < 10 then [char_of (48 + n)] else string_of_nat (n div 10) @ [char_of (48 + n mod 10)])"

definition validatePollTitle :: "string \<Rightarrow> field_error list" where
  "validatePollTitle title =
     (if title = [] \<or> length (trim title) = 0
      then [\<lparr>fe_field = ''title'', fe_message = ''Poll title is required''\<rparr>]
      else if length (trim title) < 3
      then [\<lparr>fe_field = ''title'', fe_message = ''Poll title must be at least 3 characters long''\<rparr>]
      else if length (trim title) > 200
      then [\<lparr>fe_field = ''title'', fe_message = ''Poll title must be less than 200 characters''\<rparr>]
      else [])"

definition validatePollDescription :: "string option \<Rightarrow> field_error list" where
  "validatePollDescription description =
     (case description of
        None \<Rightarrow> []
      | Some d \<Rightarrow>
          if d \<noteq> [] \<and> length (trim d) > 1000
          then [\<lparr>fe_field = ''description'',
                 fe_message = ''Poll description must be less than 1000 characters''\<rparr>]
          else [])"

definition validateOption :: "nat \<Rightarrow> string \<Rightarrow> field_error list" where
  "validateOption index option =
     (if option = [] \<or> length (trim option) = 0
      then [\<lparr>fe_field = ''options['' @ string_of_nat index @ '']'',
             fe_message = ''Poll option cannot be empty''\<rparr>]
      else if length (trim option) > 100
      then [\<lparr>fe_field = ''options['' @ string_of_nat index @ '']'',
             fe_message = ''Poll option must be less than 100 characters''\<rparr>]
      else [])"

definition validatePollOptions :: "string list \<Rightarrow> field_error list" where
  "validatePollOptions options =
     (if length options = 0
      then [\<lparr>fe_field = ''options'', fe_message = ''At least one poll option is required''\<rparr>]
      else if length options < 2
      then [\<lparr>fe_field = ''options'', fe_message = ''At least two poll options are required''\<rparr>]
      else if length options > 10
      then [\<lparr>fe_field = ''options'', fe_message = ''Maximum 10 poll options allowed''\<rparr>]
      else
        concat (map (\<lambda>(index, option). validateOption index option) (enumerate 0 options))
        @ (if length (remdups (map (\<lambda>opt. toLowerCase (trim opt)) options)) \<noteq> length options
           then [\<lparr>fe_field = ''options'', fe_message = ''Poll options must be unique''\<rparr>]
           else []))"

text \<open>
  The two instants \<^verbatim>\<open>new Date()\<close> and the same a calendar year later
  (\<^verbatim>\<open>setFullYear\<close>) are read from the clock and are parameters.
\<close>

definition validateExpirationDate ::
  "timestamptz \<Rightarrow> timestamptz \<Rightarrow> timestamptz option \<Rightarrow> field_error list" where
  "validateExpirationDate now oneYearFromNow expiresAt =
     (case expiresAt of
        None \<Rightarrow> []
      | Some e \<Rightarrow>
          if e \<le> now
          then [\<lparr>fe_field = ''expiresAt'', fe_message = ''Expiration date must be in the future''\<rparr>]
          else if e > oneYearFromNow
          then [\<lparr>fe_field = ''expiresAt'',
                 fe_message = ''Expiration date cannot be more than one year in the future''\<rparr>]
          else [])"

definition id_char :: "char \<Rightarrow> bool" where
  "id_char c =
     (let n = (of_char c :: nat)
      in (97 \<le> n \<and> n \<le> 122) \<or> (65 \<le> n \<and> n \<le> 90) \<or> (48 \<le> n \<and> n \<le> 57) \<or> n = 45 \<or> n = 95)"

definition validatePollId :: "string \<Rightarrow> field_error list" where
  "validatePollId id' =
     (if id' = [] \<or> length (trim id') = 0
      then [\<lparr>fe_field = ''id'', fe_message = ''Poll ID is required''\<rparr>]
      else if \<not> list_all id_char id'
      then [\<lparr>fe_field = ''id'', fe_message = ''Invalid poll ID format''\<rparr>]
      else [])"

definition validateOptionId :: "string \<Rightarrow> field_error list" where
  "validateOptionId id' =
     (if id' = [] \<or> length (trim id') = 0
      then [\<lparr>fe_field = ''optionId'', fe_message = ''Option ID is required''\<rparr>]
      else if \<not> list_all id_char id'
      then [\<lparr>fe_field = ''optionId'', fe_message = ''Invalid option ID format''\<rparr>]
      else [])"

record CreatePollRequest =
  cpr_title :: string
  cpr_description :: "string option"
  cpr_options :: "string list"
  cpr_expiresAt :: "timestamptz option"

record EditPollOption =
  epo_id :: string
  epo_text :: string

record EditPollFormData =
  epf_title :: string
  epf_description :: "string option"
  epf_options :: "EditPollOption list"

definition createPollRequest_errors ::
  "timestamptz \<Rightarrow> timestamptz \<Rightarrow> CreatePollRequest \<Rightarrow> field_error list" where
  "createPollRequest_errors now oneYearFromNow data =
     validatePollTitle (cpr_title data)
     @ validatePollDescription (cpr_description data)
     @ validatePollOptions (cpr_options data)
     @ validateExpirationDate now oneYearFromNow (cpr_expiresAt data)"

definition validateCreatePollRequest ::
  "timestamptz \<Rightarrow> timestamptz \<Rightarrow> CreatePollRequest \<Rightarrow> exn + unit" where
  "validateCreatePollRequest now oneYearFromNow data =
     (let errors = createPollRequest_errors now oneYearFromNow data
      in if length errors > 0 then Inl (ValidationError ''Validation failed'' errors) else Inr ())"

definition validateEditPollFormData :: "EditPollFormData \<Rightarrow> exn + unit" where
  "validateEditPollFormData data =
     (let errors = validatePollTitle (epf_title data)
                   @ validatePollDescription (epf_description data)
                   @ validatePollOptions (map epo_text (epf_options data))
      in if length errors > 0 then Inl (ValidationError ''Validation failed'' errors) else Inr ())"


subsection \<open>Authentication (\<^verbatim>\<open>auth-utils.ts\<close>)\<close>

text \<open>
  \<^verbatim>\<open>getCurrentUser()\<close> asks the identity provider for the user of the session and
  yields null when there is none or when the provider fails; its result is an input of
  every operation.
\<close>

record auth_user =
  au_id :: uuid

definition requireAuth :: "auth_user option \<Rightarrow> exn + auth_user" where
  "requireAuth user =
     (case user of
        None \<Rightarrow> Inl (AuthError ''Authentication required'' ''AUTH_REQUIRED'')
      | Some u \<Rightarrow> Inr u)"

subsection \<open>The store as the client sees it\<close>

text \<open>
  Every call of the store client returns data or an error object. Besides the rejections
  that the tables determine (constraints, a payload with an unknown column,
  \<^verbatim>\<open>.single()\<close> without exactly one row), a call
  can be answered with an error for reasons outside the tables; which calls of one
  operation are answered so is an input (\<open>env_fails\<close>), one flag per call site (per
  iteration and row for the calls inside the loops of the \<^verbatim>\<open>PATCH\<close> route). The
  environment also holds the instants of the clock and the ids the store generates.
\<close>

datatype store_call =
    FetchPolls_select
  | FetchPollById_select
  | CreatePoll_insert_poll
  | CreatePoll_insert_options
  | CreatePoll_delete_poll
  | UpdatePoll_select
  | UpdatePoll_update
  | UpdatePoll_delete_options
  | UpdatePoll_insert_options
  | DeletePoll_select
  | DeletePoll_update
  | CastVote_select_poll
  | CastVote_select_option
  | CastVote_select_vote
  | CastVote_insert_vote
  | Route_DELETE_select
  | Route_DELETE_delete
  | Route_PATCH_select
  | Route_PATCH_update
  | Route_PATCH_insert_option nat
  | Route_PATCH_update_option nat
  | Route_PATCH_select_options
  | Route_PATCH_count_votes uuid
  | Route_PATCH_delete_option uuid

record env =
  env_now :: timestamptz
  env_oneYearFromNow :: timestamptz
  env_new_poll_id :: uuid
  env_new_option_id :: "nat \<Rightarrow> uuid"
  env_new_vote_id :: uuid
  env_fails :: "store_call \<Rightarrow> bool"

definition single :: "'a list \<Rightarrow> 'a option" where
  "single rows = (case rows of [r] \<Rightarrow> Some r | _ \<Rightarrow> None)"

definition insert_poll :: "database \<Rightarrow> polls_row \<Rightarrow> database option" where
  "insert_poll db row =
     (if p_id row \<in> set (map p_id (polls db)) then None
      else if p_created_by row \<in> set (map pr_id (profiles db))
      then Some (db\<lparr>polls := polls db @ [row]\<rparr>)
      else None)"

definition insert_poll_options :: "database \<Rightarrow> poll_options_row list \<Rightarrow> database option" where
  "insert_poll_options db rows =
     (if distinct (map po_id rows)
         \<and> list_all (\<lambda>r. po_id r \<notin> set (map po_id (poll_options db))
                          \<and> po_poll_id r \<in> set (map p_id (polls db))) rows
      then Some (db\<lparr>poll_options := poll_options db @ rows\<rparr>)
      else None)"

text \<open>Deletions follow \<^verbatim>\<open>ON DELETE CASCADE\<close> from polls to options and votes, and from
  options to votes.\<close>

definition delete_poll_options_where :: "(poll_options_row \<Rightarrow> bool) \<Rightarrow> database \<Rightarrow> database" where
  "delete_poll_options_where cond db =
     db\<lparr>poll_options := filter (\<lambda>po. \<not> cond po) (poll_options db),
        votes := filter (\<lambda>v. v_option_id v \<notin> set (map po_id (filter cond (poll_options db))))
                   (votes db)\<rparr>"

definition delete_poll :: "uuid \<Rightarrow> database \<Rightarrow> database" where
  "delete_poll pid db =
     (let db1 = delete_poll_options_where (\<lambda>po. po_poll_id po = pid) db
      in db1\<lparr>polls := filter (\<lambda>p. p_id p \<noteq> pid) (polls db1),
             votes := filter (\<lambda>v. v_poll_id v \<noteq> pid) (votes db1)\<rparr>)"

text \<open>An update of a polls row fires the trigger \<^verbatim>\<open>update_polls_updated_at\<close>, which
  overwrites \<^verbatim>\<open>updated_at\<close> with the instant of the update.\<close>

definition update_poll :: "timestamptz \<Rightarrow> uuid \<Rightarrow> (polls_row \<Rightarrow> polls_row) \<Rightarrow> database \<Rightarrow> database" where
  "update_poll now pid change db =
     db\<lparr>polls := map (\<lambda>p. if p_id p = pid then (change p)\<lparr>p_updated_at := now\<rparr> else p) (polls db)\<rparr>"

subsection \<open>\<^verbatim>\<open>PollService\<close>\<close>

text \<open>
  A poll with its embedded relations, as the two reads select it. The message of a store
  error, which the service appends to its own message, is left out.
\<close>

record poll_with_relations =
  pw_poll :: polls_row
  pw_options :: "poll_options_row list"
  pw_votes :: nat
  pw_created_by :: "profiles_row option"

definition embed_relations :: "database \<Rightarrow> polls_row \<Rightarrow> poll_with_relations" where
  "embed_relations db p =
     \<lparr>pw_poll = p,
      pw_options = filter (\<lambda>po. po_poll_id po = p_id p) (poll_options db),
      pw_votes = length (filter (\<lambda>v. v_poll_id v = p_id p) (votes db)),
      pw_created_by = find (\<lambda>pr. pr_id pr = p_created_by p) (profiles db)\<rparr>"

definition fetchPolls :: "env \<Rightarrow> database \<Rightarrow> poll_with_relations list ApiResponse" where
  "fetchPolls env db =
     (if env_fails env FetchPolls_select
      then catch_block ''An unexpected error occurred while fetching polls''
             (PollOperationError ''Failed to fetch polls: '' ''FETCH_ERROR'')
      else createSuccessResponse
             (map (\<lambda>p. (embed_relations db p)\<lparr>pw_created_by := None\<rparr>)
                (rev (sort_key p_created_at (filter (\<lambda>p. p_is_active p = True) (polls db))))))"

definition fetchPollById :: "env \<Rightarrow> string \<Rightarrow> database \<Rightarrow> poll_with_relations ApiResponse" where
  "fetchPollById env id' db =
     (let _ = validatePollId id' in
      if env_fails env FetchPollById_select
      then catch_block ''An unexpected error occurred while fetching the poll''
             (PollOperationError ''Failed to fetch poll: '' ''FETCH_ERROR'')
      else
        (case single (filter (\<lambda>p. p_id p = id' \<and> p_is_active p = True) (polls db)) of
           None \<Rightarrow> catch_block ''An unexpected error occurred while fetching the poll''
                     (PollOperationError ''Poll not found'' ''POLL_NOT_FOUND'')
         | Some poll \<Rightarrow> createSuccessResponse (embed_relations db poll)))"

text \<open>
  The body of each \<^verbatim>\<open>try\<close> block returns the thrown value or the result, together
  with the state of the store at that point: the writes are separate requests, so a
  write that was answered stays when a later step throws.
\<close>

text \<open>
  The row a poll creation sends, and the payload of the options insert of
  \<^verbatim>\<open>createPoll\<close> and \<^verbatim>\<open>updatePoll\<close>: objects with the keys \<^verbatim>\<open>poll_id\<close>,
  \<^verbatim>\<open>text\<close> and \<^verbatim>\<open>order_index\<close>.
\<close>

definition new_poll_row :: "env \<Rightarrow> auth_user \<Rightarrow> CreatePollRequest \<Rightarrow> polls_row" where
  "new_poll_row env user pollData =
     \<lparr>p_id = env_new_poll_id env, p_title = trim (cpr_title pollData),
      p_description = map_option trim (cpr_description pollData),
      p_is_active = True, p_created_by = au_id user,
      p_created_at = env_now env, p_expires_at = cpr_expiresAt pollData,
      p_updated_at = env_now env\<rparr>"

record options_payload =
  opl_poll_id :: uuid
  opl_text :: string
  opl_order_index :: nat

definition optionsData :: "uuid \<Rightarrow> string list \<Rightarrow> options_payload list" where
  "optionsData poll_id options =
     map (\<lambda>(index, optionText).
            \<lparr>opl_poll_id = poll_id, opl_text = trim optionText, opl_order_index = index\<rparr>)
       (enumerate 0 options)"

text \<open>
  The store rejects a payload that names a column the table does not have, and
  \<^verbatim>\<open>poll_options\<close> has no column \<^verbatim>\<open>order_index\<close>. The columns that a payload does
  not name get their defaults: a generated id and the instant of the insert.
\<close>

definition poll_options_columns :: "string list" where
  "poll_options_columns = [''id'', ''poll_id'', ''text'', ''created_at'', ''updated_at'']"

definition optionsData_keys :: "options_payload list \<Rightarrow> string list" where
  "optionsData_keys payload =
     (if payload = [] then [] else [''poll_id'', ''text'', ''order_index''])"

definition insert_optionsData :: "env \<Rightarrow> database \<Rightarrow> options_payload list \<Rightarrow> database option" where
  "insert_optionsData env db payload =
     (if list_all (\<lambda>key. key \<in> set poll_options_columns) (optionsData_keys payload)
      then insert_poll_options db
             (map (\<lambda>(index, r).
                     \<lparr>po_id = env_new_option_id env index, po_poll_id = opl_poll_id r,
                      po_text = opl_text r, po_created_at = env_now env,
                      po_updated_at = env_now env\<rparr>)
                (enumerate 0 payload))
      else None)"

definition createPoll_try ::
  "env \<Rightarrow> auth_user option \<Rightarrow> CreatePollRequest \<Rightarrow> database
     \<Rightarrow> (exn + poll_with_relations) \<times> database" where
  "createPoll_try env current_user pollData db =
     (case requireAuth current_user of
        Inl e \<Rightarrow> (Inl e, db)
      | Inr user \<Rightarrow>
     (case validateCreatePollRequest (env_now env) (env_oneYearFromNow env) pollData of
        Inl e \<Rightarrow> (Inl e, db)
      | Inr _ \<Rightarrow>
     (case (if env_fails env CreatePoll_insert_poll then None
            else insert_poll db (new_poll_row env user pollData)) of
        None \<Rightarrow> (Inl (PollOperationError ''Failed to create poll: '' ''CREATE_ERROR''), db)
      | Some db1 \<Rightarrow>
     (case (if env_fails env CreatePoll_insert_options then None
            else insert_optionsData env db1
                   (optionsData (env_new_poll_id env) (cpr_options pollData))) of
        None \<Rightarrow>
          (Inl (PollOperationError ''Failed to create poll options: '' ''CREATE_ERROR''),
           if env_fails env CreatePoll_delete_poll then db1
           else delete_poll (env_new_poll_id env) db1)
      | Some db2 \<Rightarrow>
     (case fetchPollById env (env_new_poll_id env) db2 of
        ApiError _ _ _ \<Rightarrow>
          (Inl (PollOperationError ''Failed to retrieve created poll'' ''CREATE_ERROR''), db2)
      | ApiSuccess createdPoll \<Rightarrow> (Inr createdPoll, db2))))))"

definition createPoll ::
  "env \<Rightarrow> auth_user option \<Rightarrow> CreatePollRequest \<Rightarrow> database
     \<Rightarrow> poll_with_relations ApiResponse \<times> database" where
  "createPoll env current_user pollData db =
     (case createPoll_try env current_user pollData db of
        (Inr createdPoll, db') \<Rightarrow> (createSuccessResponse createdPoll, db')
      | (Inl error, db') \<Rightarrow>
          (catch_block ''An unexpected error occurred while creating the poll'' error, db'))"

text \<open>
  \<^verbatim>\<open>updatePoll\<close> calls \<^verbatim>\<open>validateEditPollFormData\<close>, which the module does not
  import. What the name is bound to is the first parameter: \<open>None\<close> is the module as
  written, where the call throws a \<^verbatim>\<open>ReferenceError\<close>; \<open>Some f\<close> is the module with
  the name bound to \<open>f\<close>.
\<close>

definition updatePoll_try ::
  "(EditPollFormData \<Rightarrow> exn + unit) option \<Rightarrow> env \<Rightarrow> auth_user option \<Rightarrow> string
     \<Rightarrow> EditPollFormData \<Rightarrow> database \<Rightarrow> (exn + poll_with_relations) \<times> database" where
  "updatePoll_try binding env current_user id' pollData db =
     (case requireAuth current_user of
        Inl e \<Rightarrow> (Inl e, db)
      | Inr user \<Rightarrow>
     (let _ = validatePollId id' in
      case binding of
        None \<Rightarrow> (Inl (ReferenceError ''validateEditPollFormData''), db)
      | Some validate \<Rightarrow>
     (case validate pollData of
        Inl e \<Rightarrow> (Inl e, db)
      | Inr _ \<Rightarrow>
     (case (if env_fails env UpdatePoll_select then None
            else single (filter (\<lambda>p. p_id p = id' \<and> p_is_active p = True) (polls db))) of
        None \<Rightarrow> (Inl (PollOperationError ''Poll not found'' ''POLL_NOT_FOUND''), db)
      | Some existingPoll \<Rightarrow>
          if p_created_by existingPoll \<noteq> au_id user
          then (Inl (PollOperationError ''You do not have permission to update this poll''
                       ''PERMISSION_DENIED''), db)
          else if env_fails env UpdatePoll_update
          then (Inl (PollOperationError ''Failed to update poll: '' ''UPDATE_ERROR''), db)
          else
            (let db1 = update_poll (env_now env) id'
                         (\<lambda>p. p\<lparr>p_title := trim (epf_title pollData),
                                  p_description :=
                                    (case epf_description pollData of
                                       None \<Rightarrow> p_description p
                                     | Some d \<Rightarrow> Some (trim d))\<rparr>) db;
                 refetch = (\<lambda>db'.
                   case fetchPollById env id' db' of
                     ApiError _ _ _ \<Rightarrow>
                       (Inl (PollOperationError ''Failed to retrieve updated poll''
                               ''UPDATE_ERROR''), db')
                   | ApiSuccess updatedPoll \<Rightarrow> (Inr updatedPoll, db'))
             in if length (epf_options pollData) > 0
                then
                  (let db2 = (if env_fails env UpdatePoll_delete_options then db1
                              else delete_poll_options_where (\<lambda>po. po_poll_id po = id') db1)
                   in case (if env_fails env UpdatePoll_insert_options then None
                            else insert_optionsData env db2
                                   (optionsData id' (map epo_text (epf_options pollData)))) of
                        None \<Rightarrow>
                          (Inl (PollOperationError ''Failed to update poll options: ''
                                  ''UPDATE_ERROR''), db2)
                      | Some db3 \<Rightarrow> refetch db3)
                else refetch db1)))))"

definition updatePoll ::
  "(EditPollFormData \<Rightarrow> exn + unit) option \<Rightarrow> env \<Rightarrow> auth_user option \<Rightarrow> string
     \<Rightarrow> EditPollFormData \<Rightarrow> database \<Rightarrow> poll_with_relations ApiResponse \<times> database" where
  "updatePoll binding env current_user id' pollData db =
     (case updatePoll_try binding env current_user id' pollData db of
        (Inr updatedPoll, db') \<Rightarrow> (createSuccessResponse updatedPoll, db')
      | (Inl error, db') \<Rightarrow>
          (catch_block ''An unexpected error occurred while updating the poll'' error, db'))"

definition deletePoll_try ::
  "env \<Rightarrow> auth_user option \<Rightarrow> string \<Rightarrow> database \<Rightarrow> (exn + bool) \<times> database" where
  "deletePoll_try env current_user id' db =
     (case requireAuth current_user of
        Inl e \<Rightarrow> (Inl e, db)
      | Inr user \<Rightarrow>
     (let _ = validatePollId id' in
      case (if env_fails env DeletePoll_select then None
            else single (filter (\<lambda>p. p_id p = id' \<and> p_is_active p = True) (polls db))) of
        None \<Rightarrow> (Inl (PollOperationError ''Poll not found'' ''POLL_NOT_FOUND''), db)
      | Some existingPoll \<Rightarrow>
          if p_created_by existingPoll \<noteq> au_id user
          then (Inl (PollOperationError ''You do not have permission to delete this poll''
                       ''PERMISSION_DENIED''), db)
          else if env_fails env DeletePoll_update
          then (Inl (PollOperationError ''Failed to delete poll: '' ''DELETE_ERROR''), db)
          else (Inr True, update_poll (env_now env) id' (\<lambda>p. p\<lparr>p_is_active := False\<rparr>) db)))"

definition deletePoll ::
  "env \<Rightarrow> auth_user option \<Rightarrow> string \<Rightarrow> database \<Rightarrow> bool ApiResponse \<times> database" where
  "deletePoll env current_user id' db =
     (case deletePoll_try env current_user id' db of
        (Inr success, db') \<Rightarrow> (createSuccessResponse success, db')
      | (Inl error, db') \<Rightarrow>
          (catch_block ''An unexpected error occurred while deleting the poll'' error, db'))"

definition castVote_try ::
  "env \<Rightarrow> auth_user option \<Rightarrow> string \<Rightarrow> string \<Rightarrow> database
     \<Rightarrow> (exn + poll_with_relations) \<times> database" where
  "castVote_try env current_user pollId optionId db =
     (case requireAuth current_user of
        Inl e \<Rightarrow> (Inl e, db)
      | Inr user \<Rightarrow>
     (let _ = validatePollId pollId; _ = validateOptionId optionId in
      case (if env_fails env CastVote_select_poll then None
            else single (filter (\<lambda>p. p_id p = pollId \<and> p_is_active p = True) (polls db))) of
        None \<Rightarrow> (Inl (PollOperationError ''Poll not found'' ''POLL_NOT_FOUND''), db)
      | Some poll \<Rightarrow>
          if (case p_expires_at poll of None \<Rightarrow> False | Some expires_at \<Rightarrow> expires_at < env_now env)
          then (Inl (PollOperationError ''This poll has expired'' ''POLL_EXPIRED''), db)
          else
     (case (if env_fails env CastVote_select_option then None
            else single (filter (\<lambda>po. po_id po = optionId \<and> po_poll_id po = pollId)
                           (poll_options db))) of
        None \<Rightarrow> (Inl (PollOperationError ''Invalid poll option'' ''INVALID_OPTION''), db)
      | Some option \<Rightarrow>
     (case (if env_fails env CastVote_select_vote then None
            else single (filter (\<lambda>v. v_poll_id v = pollId \<and> v_user_id v = au_id user)
                           (votes db))) of
        Some existingVote \<Rightarrow>
          (Inl (PollOperationError ''You have already voted on this poll'' ''ALREADY_VOTED''), db)
      | None \<Rightarrow>
     (case (if env_fails env CastVote_insert_vote then None
            else (case insert_vote db
                         \<lparr>v_id = env_new_vote_id env, v_poll_id = pollId, v_option_id = optionId,
                          v_user_id = au_id user, v_created_at = env_now env\<rparr> of
                    Inl voteError \<Rightarrow> None
                  | Inr db1 \<Rightarrow> Some db1)) of
        None \<Rightarrow> (Inl (PollOperationError ''Failed to cast vote: '' ''VOTE_ERROR''), db)
      | Some db1 \<Rightarrow>
     (case fetchPollById env pollId db1 of
        ApiError _ _ _ \<Rightarrow>
          (Inl (PollOperationError ''Failed to retrieve updated poll data'' ''VOTE_ERROR''), db1)
      | ApiSuccess updatedPoll \<Rightarrow> (Inr updatedPoll, db1)))))))"

definition castVote ::
  "env \<Rightarrow> auth_user option \<Rightarrow> string \<Rightarrow> string \<Rightarrow> database
     \<Rightarrow> poll_with_relations ApiResponse \<times> database" where
  "castVote env current_user pollId optionId db =
     (case castVote_try env current_user pollId optionId db of
        (Inr updatedPoll, db') \<Rightarrow> (createSuccessResponse updatedPoll, db')
      | (Inl error, db') \<Rightarrow>
          (catch_block ''An unexpected error occurred while casting your vote'' error, db'))"

section \<open>Failures before any write: authentication and validation\<close>

definition example_env :: env where
  "example_env =
     \<lparr>env_now = 100, env_oneYearFromNow = 1000, env_new_poll_id = ''p2'',
      env_new_option_id = (\<lambda>i. ''n'' @ string_of_nat i), env_new_vote_id = ''v9'',
      env_fails = (\<lambda>c. False)\<rparr>"

definition example_request :: CreatePollRequest where
  "example_request =
     \<lparr>cpr_title = ''Lunch?'', cpr_description = None, cpr_options = [''Soup'', ''Salad''],
      cpr_expiresAt = None\<rparr>"

definition invalid_request :: CreatePollRequest where
  "invalid_request =
     \<lparr>cpr_title = '''', cpr_description = None, cpr_options = [''Soup''],
      cpr_expiresAt = Some 50\<rparr>"

lemma catch_block_AuthError:
  "catch_block unexpected (AuthError m c) = ApiError unexpected (Some ''UNKNOWN_ERROR'') None"
  by (simp add: catch_block_def createErrorResponse_def)

lemma catch_block_ValidationError:
  "catch_block unexpected (ValidationError m es) = ApiError unexpected (Some ''UNKNOWN_ERROR'') None"
  by (simp add: catch_block_def createErrorResponse_def)

lemma catch_block_ReferenceError:
  "catch_block unexpected (ReferenceError n) = ApiError unexpected (Some ''UNKNOWN_ERROR'') None"
  by (simp add: catch_block_def createErrorResponse_def)

lemma catch_block_PollOperationError:
  "catch_block unexpected (PollOperationError m c) = ApiError m (Some c) None"
  by (simp add: catch_block_def createErrorResponse_def)

text \<open>
  Claim C4 (the code departs from it). When the session resolves to no user,
  \<^verbatim>\<open>requireAuth\<close> throws \<^verbatim>\<open>AuthError\<close>, which is neither an
  \<^verbatim>\<open>AuthenticationError\<close> nor a \<^verbatim>\<open>PollOperationError\<close>: each of the four mutating
  operations answers with the code \<^verbatim>\<open>UNKNOWN_ERROR\<close>, not \<^verbatim>\<open>AUTHENTICATION_ERROR\<close>.
  The store is left as it was, as the claim says.
\<close>

theorem unauthenticated_operations_unknown_error:
  "createPoll env None pollData db
     = (ApiError ''An unexpected error occurred while creating the poll'' (Some ''UNKNOWN_ERROR'') None, db)
   \<and> updatePoll binding env None id' editData db
     = (ApiError ''An unexpected error occurred while updating the poll'' (Some ''UNKNOWN_ERROR'') None, db)
   \<and> deletePoll env None id' db
     = (ApiError ''An unexpected error occurred while deleting the poll'' (Some ''UNKNOWN_ERROR'') None, db)
   \<and> castVote env None pollId optionId db
     = (ApiError ''An unexpected error occurred while casting your vote'' (Some ''UNKNOWN_ERROR'') None, db)"
  by (simp add: createPoll_def createPoll_try_def updatePoll_def updatePoll_try_def deletePoll_def
        deletePoll_try_def castVote_def castVote_try_def requireAuth_def catch_block_AuthError)

text \<open>
  Claim C5 (the code departs from it). When the request of an authenticated user violates
  a validation rule, \<^verbatim>\<open>validateCreatePollRequest\<close> throws the \<^verbatim>\<open>ValidationError\<close>
  of \<^verbatim>\<open>validation.ts\<close>, which extends \<^verbatim>\<open>Error\<close>: \<^verbatim>\<open>createPoll\<close> answers with the
  code \<^verbatim>\<open>UNKNOWN_ERROR\<close> and without the list of violations, not with
  \<^verbatim>\<open>VALIDATION_ERROR\<close>. The store is left as it was, as the claim says.
\<close>

theorem createPoll_invalid_request_unknown_error:
  assumes "createPollRequest_errors (env_now env) (env_oneYearFromNow env) pollData \<noteq> []"
  shows "createPoll env (Some user) pollData db
           = (ApiError ''An unexpected error occurred while creating the poll''
                (Some ''UNKNOWN_ERROR'') None, db)"
  using assms
  by (simp add: createPoll_def createPoll_try_def requireAuth_def validateCreatePollRequest_def
        catch_block_ValidationError Let_def)

lemma invalid_request_errors:
  "createPollRequest_errors 100 1000 invalid_request =
     [\<lparr>fe_field = ''title'', fe_message = ''Poll title is required''\<rparr>,
      \<lparr>fe_field = ''options'', fe_message = ''At least two poll options are required''\<rparr>,
      \<lparr>fe_field = ''expiresAt'', fe_message = ''Expiration date must be in the future''\<rparr>]"
  by (simp add: createPollRequest_errors_def invalid_request_def validatePollTitle_def
        validatePollDescription_def validatePollOptions_def validateExpirationDate_def)

theorem createPoll_invalid_request_unknown_error_witness:
  "createPollRequest_errors (env_now example_env) (env_oneYearFromNow example_env) invalid_request
     = [\<lparr>fe_field = ''title'', fe_message = ''Poll title is required''\<rparr>,
        \<lparr>fe_field = ''options'', fe_message = ''At least two poll options are required''\<rparr>,
        \<lparr>fe_field = ''expiresAt'', fe_message = ''Expiration date must be in the future''\<rparr>]
   \<and> createPoll example_env (Some \<lparr>au_id = ''u1''\<rparr>) invalid_request example_db
       = (ApiError ''An unexpected error occurred while creating the poll''
            (Some ''UNKNOWN_ERROR'') None, example_db)"
proof -
  have e: "createPollRequest_errors (env_now example_env) (env_oneYearFromNow example_env) invalid_request
     = [\<lparr>fe_field = ''title'', fe_message = ''Poll title is required''\<rparr>,
        \<lparr>fe_field = ''options'', fe_message = ''At least two poll options are required''\<rparr>,
        \<lparr>fe_field = ''expiresAt'', fe_message = ''Expiration date must be in the future''\<rparr>]"
    using invalid_request_errors by (simp add: example_env_def)
  then have "createPollRequest_errors (env_now example_env) (env_oneYearFromNow example_env) invalid_request \<noteq> []"
    by simp
  from createPoll_invalid_request_unknown_error[OF this, of "\<lparr>au_id = ''u1''\<rparr>" example_db] e
  show ?thesis by simp
qed

section \<open>Filters on a key\<close>

lemma not_in_image_neq: "k \<notin> f ` A \<Longrightarrow> y \<in> A \<Longrightarrow> f y \<noteq> k"
  by (rule notI) (simp add: image_iff, metis)

lemma filter_key_absent: "k \<notin> f ` set xs \<Longrightarrow> filter (\<lambda>y. f y = k) xs = []"
  unfolding filter_empty_conv using not_in_image_neq[of k f "set xs"] by blast

lemma filter_key_absent_neq: "k \<notin> f ` set xs \<Longrightarrow> filter (\<lambda>y. f y \<noteq> k) xs = xs"
  unfolding filter_id_conv using not_in_image_neq[of k f "set xs"] by blast

section \<open>Selecting one poll by id\<close>

lemma filter_distinct_key:
  "distinct (map f xs) \<Longrightarrow> x \<in> set xs \<Longrightarrow> filter (\<lambda>y. f y = f x) xs = [x]"
proof (induction xs)
  case Nil
  then show ?case by simp
next
  case (Cons a xs)
  show ?case
  proof (cases "a = x")
    case True
    with Cons.prems have "f x \<notin> f ` set xs" by simp
    then have "filter (\<lambda>y. f y = f x) xs = []" by (rule filter_key_absent)
    with True show ?thesis by simp
  next
    case False
    with Cons.prems have "x \<in> set xs" "f a \<noteq> f x" by auto
    with Cons show ?thesis by simp
  qed
qed

lemma select_active_poll:
  assumes "polls_pkey db" "poll \<in> set (polls db)"
  shows "single (filter (\<lambda>p. p_id p = p_id poll \<and> p_is_active p = True) (polls db))
           = (if p_is_active poll then Some poll else None)"
proof -
  have "filter (\<lambda>p. p_id p = p_id poll \<and> p_is_active p = True) (polls db)
          = filter (\<lambda>p. p_is_active p) (filter (\<lambda>p. p_id p = p_id poll) (polls db))"
    by (simp add: conj_commute)
  also have "\<dots> = filter (\<lambda>p. p_is_active p) [poll]"
    using filter_distinct_key[of p_id "polls db" poll] assms unfolding polls_pkey_def by simp
  finally show ?thesis by (simp add: single_def)
qed

lemma select_absent_poll:
  assumes "pid \<notin> set (map p_id (polls db))"
  shows "single (filter (\<lambda>p. p_id p = pid \<and> p_is_active p = True) (polls db)) = None"
proof -
  have "filter (\<lambda>p. p_id p = pid \<and> p_is_active p = True) (polls db) = []"
    using assms unfolding filter_empty_conv by auto
  then show ?thesis by (simp add: single_def)
qed

section \<open>Compensating delete of \<^verbatim>\<open>createPoll\<close>\<close>

lemma delete_inserted_poll:
  assumes "insert_poll db row = Some db1" "poll_options_fkey db" "votes_fkeys db"
  shows "delete_poll (p_id row) db1 = db"
proof -
  from assms(1) have db1: "db1 = db\<lparr>polls := polls db @ [row]\<rparr>"
    and fresh: "p_id row \<notin> set (map p_id (polls db))"
    unfolding insert_poll_def by (auto split: if_splits)
  have fo: "p_id row \<notin> po_poll_id ` set (poll_options db)"
    using assms(2) fresh unfolding poll_options_fkey_def list_all_iff by (simp add: image_iff, metis)
  have fv: "p_id row \<notin> v_poll_id ` set (votes db)"
    using assms(3) fresh unfolding votes_fkeys_def list_all_iff by (simp add: image_iff, metis)
  have o: "filter (\<lambda>po. po_poll_id po = p_id row) (poll_options db) = []"
    using fo by (rule filter_key_absent)
  have o': "filter (\<lambda>po. po_poll_id po \<noteq> p_id row) (poll_options db) = poll_options db"
    using fo by (rule filter_key_absent_neq)
  have v: "filter (\<lambda>v. v_poll_id v \<noteq> p_id row) (votes db) = votes db"
    using fv by (rule filter_key_absent_neq)
  have p: "filter (\<lambda>p. p_id p \<noteq> p_id row) (polls db) = polls db"
    using fresh by (simp add: filter_key_absent_neq)
  show ?thesis
    unfolding delete_poll_def delete_poll_options_where_def db1
    by (simp add: o o' v p)
qed

text \<open>
  Claim C6, amended. When the request is valid, the poll row is inserted and the insert of
  the options fails, \<^verbatim>\<open>createPoll\<close> answers \<^verbatim>\<open>CREATE_ERROR\<close> after sending the delete
  of the poll it has just created. When the store carries the delete out, the store is
  back in the state it had before the call; the answer to the delete is not inspected, and
  when the store does not carry it out the new poll row stays.
\<close>

theorem createPoll_options_failure_rollback:
  assumes "createPollRequest_errors (env_now env) (env_oneYearFromNow env) pollData = []"
    and "\<not> env_fails env CreatePoll_insert_poll"
    and "insert_poll db (new_poll_row env user pollData) = Some db1"
    and "env_fails env CreatePoll_insert_options
         \<or> insert_optionsData env db1 (optionsData (env_new_poll_id env) (cpr_options pollData)) = None"
    and "poll_options_fkey db" and "votes_fkeys db"
  shows "fst (createPoll env (Some user) pollData db)
           = ApiError ''Failed to create poll options: '' (Some ''CREATE_ERROR'') None
       \<and> snd (createPoll env (Some user) pollData db)
           = (if env_fails env CreatePoll_delete_poll then db1 else db)"
proof -
  have d: "delete_poll (env_new_poll_id env) db1 = db"
    using delete_inserted_poll[OF assms(3,5,6)] by (simp add: new_poll_row_def)
  have i: "(if env_fails env CreatePoll_insert_options then None
            else insert_optionsData env db1 (optionsData (env_new_poll_id env) (cpr_options pollData))) = None"
    using assms(4) by auto
  show ?thesis
    unfolding createPoll_def createPoll_try_def
    using assms(1,2,3)
    by (simp add: i d requireAuth_def validateCreatePollRequest_def catch_block_PollOperationError)
qed

definition example_env_options_fail :: env where
  "example_env_options_fail = example_env\<lparr>env_fails := (\<lambda>c. c = CreatePoll_insert_options)\<rparr>"

definition example_env_rollback_fails :: env where
  "example_env_rollback_fails =
     example_env\<lparr>env_fails := (\<lambda>c. c = CreatePoll_insert_options \<or> c = CreatePoll_delete_poll)\<rparr>"

lemma example_request_valid:
  "createPollRequest_errors 100 1000 example_request = []"
  by (simp add: createPollRequest_errors_def example_request_def validatePollTitle_def
        validatePollDescription_def validatePollOptions_def validateExpirationDate_def
        validateOption_def trim_def is_space_def toLowerCase_def enumerate_eq_zip upt_rec)

lemma example_db_fkeys: "poll_options_fkey example_db \<and> votes_fkeys example_db"
  by (simp add: poll_options_fkey_def votes_fkeys_def example_db_def)

theorem createPoll_options_failure_rollback_witness:
  "createPollRequest_errors (env_now example_env_options_fail)
       (env_oneYearFromNow example_env_options_fail) example_request = []
   \<and> \<not> env_fails example_env_options_fail CreatePoll_insert_poll
   \<and> env_fails example_env_options_fail CreatePoll_insert_options
   \<and> poll_options_fkey example_db \<and> votes_fkeys example_db
   \<and> createPoll example_env_options_fail (Some \<lparr>au_id = ''u1''\<rparr>) example_request example_db
       = (ApiError ''Failed to create poll options: '' (Some ''CREATE_ERROR'') None, example_db)"
proof -
  let ?row = "new_poll_row example_env_options_fail \<lparr>au_id = ''u1''\<rparr> example_request"
  have 1: "createPollRequest_errors (env_now example_env_options_fail)
       (env_oneYearFromNow example_env_options_fail) example_request = []"
    using example_request_valid by (simp add: example_env_options_fail_def example_env_def)
  have 2: "\<not> env_fails example_env_options_fail CreatePoll_insert_poll"
    by (simp add: example_env_options_fail_def)
  have 3: "insert_poll example_db ?row = Some (example_db\<lparr>polls := polls example_db @ [?row]\<rparr>)"
    by (simp add: insert_poll_def new_poll_row_def example_db_def example_env_options_fail_def
          example_env_def)
  have 4: "env_fails example_env_options_fail CreatePoll_insert_options"
    by (simp add: example_env_options_fail_def)
  then have o4: "env_fails example_env_options_fail CreatePoll_insert_options
     \<or> insert_optionsData example_env_options_fail (example_db\<lparr>polls := polls example_db @ [?row]\<rparr>)
         (optionsData (env_new_poll_id example_env_options_fail)
            (cpr_options example_request)) = None"
    by simp
  have 5: "\<not> env_fails example_env_options_fail CreatePoll_delete_poll"
    by (simp add: example_env_options_fail_def)
  from createPoll_options_failure_rollback[OF 1 2 3 o4 example_db_fkeys[THEN conjunct1]
      example_db_fkeys[THEN conjunct2]]
  show ?thesis using 1 2 4 5 example_db_fkeys by (simp add: prod_eq_iff)
qed

text \<open>
  Claim C6 as stated fails: when the options insert and the compensating delete both fail,
  \<^verbatim>\<open>createPoll\<close> answers \<^verbatim>\<open>CREATE_ERROR\<close> and the new poll row stays, with no option.
\<close>

theorem createPoll_failed_rollback_leaves_poll_without_options:
  "fst (createPoll example_env_rollback_fails (Some \<lparr>au_id = ''u1''\<rparr>) example_request example_db)
     = ApiError ''Failed to create poll options: '' (Some ''CREATE_ERROR'') None
   \<and> ''p2'' \<notin> set (map p_id (polls example_db))
   \<and> ''p2'' \<in> set (map p_id (polls (snd (createPoll example_env_rollback_fails
                                            (Some \<lparr>au_id = ''u1''\<rparr>) example_request example_db))))
   \<and> filter (\<lambda>po. po_poll_id po = ''p2'')
        (poll_options (snd (createPoll example_env_rollback_fails
                              (Some \<lparr>au_id = ''u1''\<rparr>) example_request example_db))) = []"
proof -
  have v: "createPollRequest_errors (env_now example_env_rollback_fails)
       (env_oneYearFromNow example_env_rollback_fails) example_request = []"
    using example_request_valid by (simp add: example_env_rollback_fails_def example_env_def)
  show ?thesis
    unfolding createPoll_def createPoll_try_def
    by (simp add: v requireAuth_def validateCreatePollRequest_def catch_block_PollOperationError
          insert_poll_def new_poll_row_def)
       (simp add: example_env_rollback_fails_def example_env_def example_db_def)
qed

section \<open>The ownership gate of \<^verbatim>\<open>updatePoll\<close> and \<^verbatim>\<open>deletePoll\<close>\<close>

definition example_closed_db :: database where
  "example_closed_db =
     example_voted_db\<lparr>polls := map (\<lambda>p. p\<lparr>p_is_active := False\<rparr>) (polls example_voted_db)\<rparr>"

lemma failure_code_catch_block:
  "failure_code (catch_block unexpected (PollOperationError m c)) = Some c"
  by (simp add: catch_block_PollOperationError)

lemma deletePoll_not_owner:
  assumes "poll \<in> set (polls db)" "polls_pkey db" "au_id user \<noteq> p_created_by poll"
  shows "deletePoll env (Some user) (p_id poll) db =
     (if env_fails env DeletePoll_select \<or> \<not> p_is_active poll
      then ApiError ''Poll not found'' (Some ''POLL_NOT_FOUND'') None
      else ApiError ''You do not have permission to delete this poll'' (Some ''PERMISSION_DENIED'') None,
      db)"
  using assms(3)
  unfolding deletePoll_def deletePoll_try_def select_active_poll[OF assms(2,1)]
  by (simp add: requireAuth_def catch_block_PollOperationError)

lemma updatePoll_not_owner:
  assumes "poll \<in> set (polls db)" "polls_pkey db" "au_id user \<noteq> p_created_by poll"
  shows "snd (updatePoll binding env (Some user) (p_id poll) editData db) = db
       \<and> (\<forall>r. fst (updatePoll binding env (Some user) (p_id poll) editData db) \<noteq> ApiSuccess r)
       \<and> (binding = Some validate \<and> validate editData = Inr () \<and> \<not> env_fails env UpdatePoll_select
            \<longrightarrow> fst (updatePoll binding env (Some user) (p_id poll) editData db) =
                (if p_is_active poll
                 then ApiError ''You do not have permission to update this poll'' (Some ''PERMISSION_DENIED'') None
                 else ApiError ''Poll not found'' (Some ''POLL_NOT_FOUND'') None))"
  using assms(3)
  unfolding updatePoll_def updatePoll_try_def select_active_poll[OF assms(2,1)]
  by (auto simp: requireAuth_def catch_block_def createErrorResponse_def Let_def
        split: option.splits sum.splits)

text \<open>
  Claim C7, amended. For a poll of the store and a session whose user is not the poll's
  creator, \<^verbatim>\<open>deletePoll\<close> and \<^verbatim>\<open>updatePoll\<close> never succeed and leave the whole store
  (the poll, its options and votes included) unchanged. When the store answers the lookup,
  \<^verbatim>\<open>deletePoll\<close> returns \<^verbatim>\<open>PERMISSION_DENIED\<close> for a poll with \<^verbatim>\<open>is_active = true\<close>
  and \<^verbatim>\<open>POLL_NOT_FOUND\<close> for one with \<^verbatim>\<open>is_active = false\<close>, and so does
  \<^verbatim>\<open>updatePoll\<close> once its validation call is bound and accepts the data.
\<close>

theorem not_owner_cannot_update_or_delete:
  assumes "poll \<in> set (polls db)" and "polls_pkey db" and "au_id user \<noteq> p_created_by poll"
  shows "snd (deletePoll env (Some user) (p_id poll) db) = db
       \<and> snd (updatePoll binding env (Some user) (p_id poll) editData db) = db
       \<and> (\<forall>r. fst (deletePoll env (Some user) (p_id poll) db) \<noteq> ApiSuccess r)
       \<and> (\<forall>r. fst (updatePoll binding env (Some user) (p_id poll) editData db) \<noteq> ApiSuccess r)
       \<and> (\<not> env_fails env DeletePoll_select \<longrightarrow>
            failure_code (fst (deletePoll env (Some user) (p_id poll) db))
              = Some (if p_is_active poll then ''PERMISSION_DENIED'' else ''POLL_NOT_FOUND''))
       \<and> (binding = Some validate \<and> validate editData = Inr () \<and> \<not> env_fails env UpdatePoll_select \<longrightarrow>
            failure_code (fst (updatePoll binding env (Some user) (p_id poll) editData db))
              = Some (if p_is_active poll then ''PERMISSION_DENIED'' else ''POLL_NOT_FOUND''))"
proof -
  note d = deletePoll_not_owner[OF assms, of env]
  note u = updatePoll_not_owner[OF assms, of binding env editData validate]
  show ?thesis unfolding d using u by auto
qed

definition example_edit :: EditPollFormData where
  "example_edit =
     \<lparr>epf_title = ''Colour'', epf_description = None,
      epf_options = [\<lparr>epo_id = ''x'', epo_text = ''Green''\<rparr>, \<lparr>epo_id = ''y'', epo_text = ''Pink''\<rparr>]\<rparr>"

lemma example_polls:
  "polls example_db = [\<lparr>p_id = ''p1'', p_title = ''Favorite color?'', p_description = None,
                p_is_active = True, p_created_by = ''u1'', p_created_at = 0,
                p_expires_at = None, p_updated_at = 0\<rparr>]"
  by (simp add: example_db_def)

lemma example_edit_valid: "validateEditPollFormData example_edit = Inr ()"
  by (simp add: validateEditPollFormData_def example_edit_def validatePollTitle_def
        validatePollDescription_def validatePollOptions_def validateOption_def trim_def
        is_space_def toLowerCase_def enumerate_eq_zip upt_rec)

theorem not_owner_cannot_update_or_delete_witness:
  "hd (polls example_db) \<in> set (polls example_db) \<and> polls_pkey example_db
   \<and> au_id \<lparr>au_id = ''u2''\<rparr> \<noteq> p_created_by (hd (polls example_db))
   \<and> deletePoll example_env (Some \<lparr>au_id = ''u2''\<rparr>) ''p1'' example_db
       = (ApiError ''You do not have permission to delete this poll'' (Some ''PERMISSION_DENIED'') None,
          example_db)
   \<and> snd (updatePoll (Some validateEditPollFormData) example_env (Some \<lparr>au_id = ''u2''\<rparr>) ''p1''
             example_edit example_db) = example_db
   \<and> failure_code (fst (updatePoll (Some validateEditPollFormData) example_env
                           (Some \<lparr>au_id = ''u2''\<rparr>) ''p1'' example_edit example_db))
       = Some ''PERMISSION_DENIED''"
proof -
  let ?poll = "hd (polls example_db)"
  have 1: "?poll \<in> set (polls example_db)" by (simp add: example_polls)
  have 2: "polls_pkey example_db" by (simp add: polls_pkey_def example_polls)
  have 3: "au_id \<lparr>au_id = ''u2''\<rparr> \<noteq> p_created_by ?poll" by (simp add: example_polls)
  have 4: "p_id ?poll = ''p1''" "p_is_active ?poll" by (simp_all add: example_polls)
  have 5: "\<not> env_fails example_env DeletePoll_select" "\<not> env_fails example_env UpdatePoll_select"
    by (simp_all add: example_env_def)
  from not_owner_cannot_update_or_delete[OF 1 2 3, of example_env "Some validateEditPollFormData"
      example_edit validateEditPollFormData]
  show ?thesis using 1 2 3 4 5 example_edit_valid
    by (cases "deletePoll example_env (Some \<lparr>au_id = ''u2''\<rparr>) ''p1'' example_db")
       (auto simp: deletePoll_not_owner[OF 1 2 3, of example_env, unfolded 4])
qed

text \<open>
  Claim C7 as stated fails: for a poll with \<^verbatim>\<open>is_active = false\<close>, \<^verbatim>\<open>deletePoll\<close> by a
  user who is not the creator returns \<^verbatim>\<open>POLL_NOT_FOUND\<close>, not \<^verbatim>\<open>PERMISSION_DENIED\<close>.
\<close>

theorem deletePoll_of_inactive_poll_by_other_user_not_found:
  "hd (polls example_closed_db) \<in> set (polls example_closed_db)
   \<and> p_id (hd (polls example_closed_db)) = ''p1''
   \<and> p_created_by (hd (polls example_closed_db)) = ''u1''
   \<and> deletePoll example_env (Some \<lparr>au_id = ''u2''\<rparr>) ''p1'' example_closed_db
       = (ApiError ''Poll not found'' (Some ''POLL_NOT_FOUND'') None, example_closed_db)"
  by (simp add: example_closed_db_def example_voted_db_def example_polls deletePoll_def
        deletePoll_try_def requireAuth_def single_def catch_block_PollOperationError example_env_def)

section \<open>The activity gate of \<^verbatim>\<open>castVote\<close>\<close>

lemma is_poll_active_of_row:
  assumes "poll \<in> set (polls db)" "polls_pkey db"
  shows "is_poll_active now db (p_id poll)
           = Some (p_is_active poll \<and> (case p_expires_at poll of None \<Rightarrow> True | Some e \<Rightarrow> now < e))"
  using find_distinct_key[of p_id "polls db" poll] assms
  unfolding is_poll_active_def polls_pkey_def by simp

text \<open>
  Claim C3, amended. For a \<^verbatim>\<open>castVote\<close> call of an authenticated user on a poll whose
  row exists, when the store answers the lookup: the result is \<^verbatim>\<open>POLL_NOT_FOUND\<close> when
  \<^verbatim>\<open>is_active\<close> is false; it is \<^verbatim>\<open>POLL_EXPIRED\<close> when \<^verbatim>\<open>is_active\<close> is true and
  \<^verbatim>\<open>expires_at\<close> is set and strictly in the past; it is neither of the two when
  \<^verbatim>\<open>is_active\<close> is true and \<^verbatim>\<open>expires_at\<close> is unset or strictly in the future.
  \<^verbatim>\<open>POLL_NOT_FOUND\<close> is also the result when the row is absent. The store function
  \<^verbatim>\<open>is_poll_active\<close> is true exactly when \<^verbatim>\<open>is_active\<close> is true and
  \<^verbatim>\<open>expires_at\<close> is unset or strictly in the future.
\<close>

theorem castVote_poll_gate:
  assumes "poll \<in> set (polls db)" and "polls_pkey db" and "\<not> env_fails env CastVote_select_poll"
  shows "(\<not> p_is_active poll \<longrightarrow>
            failure_code (fst (castVote env (Some user) (p_id poll) optionId db)) = Some ''POLL_NOT_FOUND'')
       \<and> (p_is_active poll \<and> (\<exists>e. p_expires_at poll = Some e \<and> e < env_now env) \<longrightarrow>
            failure_code (fst (castVote env (Some user) (p_id poll) optionId db)) = Some ''POLL_EXPIRED'')
       \<and> (p_is_active poll \<and> (case p_expires_at poll of None \<Rightarrow> True | Some e \<Rightarrow> env_now env < e) \<longrightarrow>
            failure_code (fst (castVote env (Some user) (p_id poll) optionId db))
              \<notin> {Some ''POLL_NOT_FOUND'', Some ''POLL_EXPIRED''})
       \<and> (absent \<notin> set (map p_id (polls db)) \<longrightarrow>
            failure_code (fst (castVote env (Some user) absent optionId db)) = Some ''POLL_NOT_FOUND'')
       \<and> is_poll_active now db (p_id poll)
            = Some (p_is_active poll \<and> (case p_expires_at poll of None \<Rightarrow> True | Some e \<Rightarrow> now < e))"
proof -
  note sel = select_active_poll[OF assms(2,1)]
  have 1: "\<not> p_is_active poll \<Longrightarrow>
            failure_code (fst (castVote env (Some user) (p_id poll) optionId db)) = Some ''POLL_NOT_FOUND''"
    unfolding castVote_def castVote_try_def sel
    by (simp add: requireAuth_def catch_block_PollOperationError)
  have 2: "p_is_active poll \<Longrightarrow> p_expires_at poll = Some e \<Longrightarrow> e < env_now env \<Longrightarrow>
            failure_code (fst (castVote env (Some user) (p_id poll) optionId db)) = Some ''POLL_EXPIRED''" for e
    unfolding castVote_def castVote_try_def sel using assms(3)
    by (simp add: requireAuth_def catch_block_PollOperationError)
  have 3: "p_is_active poll \<Longrightarrow> (case p_expires_at poll of None \<Rightarrow> True | Some e \<Rightarrow> env_now env < e) \<Longrightarrow>
            failure_code (fst (castVote env (Some user) (p_id poll) optionId db))
              \<notin> {Some ''POLL_NOT_FOUND'', Some ''POLL_EXPIRED''}"
  proof -
    assume a: "p_is_active poll" "case p_expires_at poll of None \<Rightarrow> True | Some e \<Rightarrow> env_now env < e"
    then have ne: "\<not> (case p_expires_at poll of None \<Rightarrow> False | Some expires_at \<Rightarrow> expires_at < env_now env)"
      by (auto split: option.splits)
    show ?thesis
      unfolding castVote_def castVote_try_def sel using assms(3) a(1) ne
      by (auto simp: requireAuth_def Let_def catch_block_PollOperationError createSuccessResponse_def
            split: option.splits sum.splits ApiResponse.splits)
  qed
  have 4: "absent \<notin> set (map p_id (polls db)) \<Longrightarrow>
            failure_code (fst (castVote env (Some user) absent optionId db)) = Some ''POLL_NOT_FOUND''"
  proof -
    assume "absent \<notin> set (map p_id (polls db))"
    from select_absent_poll[OF this]
    have s: "(if env_fails env CastVote_select_poll then None
              else single (filter (\<lambda>p. p_id p = absent \<and> p_is_active p = True) (polls db))) = None"
      by simp
    show ?thesis
      unfolding castVote_def castVote_try_def s
      by (simp add: requireAuth_def catch_block_PollOperationError)
  qed
  show ?thesis using 1 2 3 4 is_poll_active_of_row[OF assms(1,2)] by blast
qed

definition example_expired_db :: database where
  "example_expired_db =
     example_db\<lparr>polls := map (\<lambda>p. p\<lparr>p_expires_at := Some 99\<rparr>) (polls example_db)\<rparr>"

theorem castVote_poll_gate_witness:
  "hd (polls example_expired_db) \<in> set (polls example_expired_db) \<and> polls_pkey example_expired_db
   \<and> \<not> env_fails example_env CastVote_select_poll
   \<and> p_is_active (hd (polls example_expired_db))
   \<and> p_expires_at (hd (polls example_expired_db)) = Some 99 \<and> 99 < env_now example_env
   \<and> failure_code (fst (castVote example_env (Some \<lparr>au_id = ''u2''\<rparr>) ''p1'' ''oA'' example_expired_db))
       = Some ''POLL_EXPIRED''
   \<and> is_poll_active 99 example_expired_db ''p1'' = Some False"
proof -
  let ?poll = "hd (polls example_expired_db)"
  have p: "polls example_expired_db = [\<lparr>p_id = ''p1'', p_title = ''Favorite color?'', p_description = None,
                p_is_active = True, p_created_by = ''u1'', p_created_at = 0,
                p_expires_at = Some 99, p_updated_at = 0\<rparr>]"
    by (simp add: example_expired_db_def example_polls)
  have 1: "?poll \<in> set (polls example_expired_db)" by (simp add: p)
  have 2: "polls_pkey example_expired_db" by (simp add: polls_pkey_def p)
  have 3: "\<not> env_fails example_env CastVote_select_poll" by (simp add: example_env_def)
  have 4: "p_id ?poll = ''p1''" "p_is_active ?poll" "p_expires_at ?poll = Some 99" "99 < env_now example_env"
    by (simp_all add: p example_env_def)
  from castVote_poll_gate[OF 1 2 3, of "\<lparr>au_id = ''u2''\<rparr>" "''oA''" "''zz''" 99]
  show ?thesis using 1 2 3 4 by auto
qed

text \<open>
  Claim C3 as stated fails: for a poll whose row exists with \<^verbatim>\<open>is_active = false\<close>,
  \<^verbatim>\<open>castVote\<close> returns \<^verbatim>\<open>POLL_NOT_FOUND\<close>, not \<^verbatim>\<open>POLL_EXPIRED\<close>.
\<close>

theorem castVote_on_inactive_poll_not_found:
  "hd (polls example_closed_db) \<in> set (polls example_closed_db)
   \<and> p_id (hd (polls example_closed_db)) = ''p1''
   \<and> p_is_active (hd (polls example_closed_db)) = False
   \<and> castVote example_env (Some \<lparr>au_id = ''u2''\<rparr>) ''p1'' ''oA'' example_closed_db
       = (ApiError ''Poll not found'' (Some ''POLL_NOT_FOUND'') None, example_closed_db)"
  by (simp add: example_closed_db_def example_voted_db_def example_polls castVote_def
        castVote_try_def requireAuth_def single_def catch_block_PollOperationError example_env_def)

section \<open>Soft delete\<close>

lemma deletePoll_success:
  assumes "fst (deletePoll env current_user id' db) = ApiSuccess s"
  shows "snd (deletePoll env current_user id' db)
           = update_poll (env_now env) id' (\<lambda>p. p\<lparr>p_is_active := False\<rparr>) db
       \<and> id' \<in> set (map p_id (polls db))"
proof -
  from assms obtain user where u: "current_user = Some user"
    unfolding deletePoll_def deletePoll_try_def
    by (cases current_user) (auto simp: requireAuth_def catch_block_def createErrorResponse_def)
  let ?sel = "if env_fails env DeletePoll_select then None
              else single (filter (\<lambda>p. p_id p = id' \<and> p_is_active p = True) (polls db))"
  from assms obtain existingPoll where e: "?sel = Some existingPoll"
    unfolding deletePoll_def deletePoll_try_def u
    by (cases ?sel) (auto simp: requireAuth_def catch_block_def createErrorResponse_def)
  then have "single (filter (\<lambda>p. p_id p = id' \<and> p_is_active p = True) (polls db)) = Some existingPoll"
    by (auto split: if_splits)
  then have "filter (\<lambda>p. p_id p = id' \<and> p_is_active p = True) (polls db) = [existingPoll]"
    unfolding single_def by (auto split: list.splits)
  then have "existingPoll \<in> set (filter (\<lambda>p. p_id p = id' \<and> p_is_active p = True) (polls db))"
    by simp
  then have m: "id' \<in> set (map p_id (polls db))" by auto
  from assms show ?thesis
    unfolding deletePoll_def deletePoll_try_def u e using m
    by (auto simp: requireAuth_def catch_block_def createErrorResponse_def split: if_splits)
qed

lemma no_active_row_after_soft_delete:
  "filter (\<lambda>p. p_id p = id' \<and> p_is_active p = True)
     (polls (update_poll now id' (\<lambda>p. p\<lparr>p_is_active := False\<rparr>) db)) = []"
proof -
  have "filter (\<lambda>p. p_id p = id' \<and> p_is_active p = True)
          (map (\<lambda>p. if p_id p = id' then (p\<lparr>p_is_active := False\<rparr>)\<lparr>p_updated_at := now\<rparr> else p) ps) = []" for ps
    by (induction ps) simp_all
  then show ?thesis unfolding update_poll_def by simp
qed

text \<open>
  Claim C10. After a successful \<^verbatim>\<open>deletePoll\<close> the poll's row is still in the table,
  with \<^verbatim>\<open>is_active\<close> false and \<^verbatim>\<open>updated_at\<close> set to the instant of the update and
  every other column as before; the options, votes and profiles are untouched. On the
  resulting store every successful \<^verbatim>\<open>fetchPolls\<close> leaves the poll out, and
  \<^verbatim>\<open>fetchPollById\<close> for its id never succeeds: it returns \<^verbatim>\<open>POLL_NOT_FOUND\<close>
  whenever the store answers the query.
\<close>

theorem deletePoll_soft_delete_hides_poll:
  assumes "fst (deletePoll env current_user id' db) = ApiSuccess s"
  shows "polls (snd (deletePoll env current_user id' db))
           = map (\<lambda>p. if p_id p = id' then p\<lparr>p_is_active := False, p_updated_at := env_now env\<rparr> else p)
               (polls db)
       \<and> id' \<in> set (map p_id (polls (snd (deletePoll env current_user id' db))))
       \<and> poll_options (snd (deletePoll env current_user id' db)) = poll_options db
       \<and> votes (snd (deletePoll env current_user id' db)) = votes db
       \<and> profiles (snd (deletePoll env current_user id' db)) = profiles db
       \<and> (\<forall>ps. fetchPolls env' (snd (deletePoll env current_user id' db)) = ApiSuccess ps
              \<longrightarrow> id' \<notin> set (map (\<lambda>r. p_id (pw_poll r)) ps))
       \<and> (\<not> env_fails env' FetchPolls_select
              \<longrightarrow> (\<exists>ps. fetchPolls env' (snd (deletePoll env current_user id' db)) = ApiSuccess ps))
       \<and> (\<forall>r. fetchPollById env' id' (snd (deletePoll env current_user id' db)) \<noteq> ApiSuccess r)
       \<and> (\<not> env_fails env' FetchPollById_select
              \<longrightarrow> fetchPollById env' id' (snd (deletePoll env current_user id' db))
                    = ApiError ''Poll not found'' (Some ''POLL_NOT_FOUND'') None)"
proof -
  let ?db' = "snd (deletePoll env current_user id' db)"
  from deletePoll_success[OF assms]
  have d: "?db' = update_poll (env_now env) id' (\<lambda>p. p\<lparr>p_is_active := False\<rparr>) db"
    and m: "id' \<in> set (map p_id (polls db))" by auto
  have 1: "polls ?db' = map (\<lambda>p. if p_id p = id' then p\<lparr>p_is_active := False, p_updated_at := env_now env\<rparr> else p)
               (polls db)"
    unfolding d update_poll_def by simp
  have 2: "id' \<in> set (map p_id (polls ?db'))"
    using m unfolding 1 by (auto simp: image_iff)
  have 3: "poll_options ?db' = poll_options db" "votes ?db' = votes db" "profiles ?db' = profiles db"
    unfolding d update_poll_def by simp_all
  have f: "filter (\<lambda>p. p_id p = id' \<and> p_is_active p = True) (polls ?db') = []"
    unfolding d by (rule no_active_row_after_soft_delete)
  have 4: "fetchPolls env' ?db' = ApiSuccess ps \<Longrightarrow> id' \<notin> set (map (\<lambda>r. p_id (pw_poll r)) ps)" for ps
  proof -
    assume a: "fetchPolls env' ?db' = ApiSuccess ps"
    then have ps: "ps = map (\<lambda>p. (embed_relations ?db' p)\<lparr>pw_created_by := None\<rparr>)
                (rev (sort_key p_created_at (filter (\<lambda>p. p_is_active p = True) (polls ?db'))))"
      unfolding fetchPolls_def
      by (auto simp: catch_block_def createErrorResponse_def createSuccessResponse_def split: if_splits)
    have "map (\<lambda>r. p_id (pw_poll r)) ps
            = map p_id (rev (sort_key p_created_at (filter (\<lambda>p. p_is_active p = True) (polls ?db'))))"
      unfolding ps by (simp add: embed_relations_def comp_def)
    then have "set (map (\<lambda>r. p_id (pw_poll r)) ps)
            = p_id ` set (filter (\<lambda>p. p_is_active p = True) (polls ?db'))"
      by simp
    moreover have "filter (\<lambda>p. p_id p = id') (filter (\<lambda>p. p_is_active p = True) (polls ?db')) = []"
      using f by (simp add: conj_commute)
    then have "id' \<notin> p_id ` set (filter (\<lambda>p. p_is_active p = True) (polls ?db'))"
      unfolding filter_empty_conv by (simp add: image_iff) metis
    ultimately show ?thesis by simp
  qed
  have 5: "\<not> env_fails env' FetchPolls_select \<Longrightarrow> \<exists>ps. fetchPolls env' ?db' = ApiSuccess ps"
    unfolding fetchPolls_def by (simp add: createSuccessResponse_def)
  have 6: "fetchPollById env' id' ?db' \<noteq> ApiSuccess r" for r
    unfolding fetchPollById_def f
    by (simp add: single_def catch_block_def createErrorResponse_def Let_def)
  have 7: "\<not> env_fails env' FetchPollById_select \<Longrightarrow>
           fetchPollById env' id' ?db' = ApiError ''Poll not found'' (Some ''POLL_NOT_FOUND'') None"
    unfolding fetchPollById_def f
    by (simp add: single_def catch_block_PollOperationError Let_def)
  have c4: "\<forall>ps. fetchPolls env' ?db' = ApiSuccess ps \<longrightarrow> id' \<notin> set (map (\<lambda>r. p_id (pw_poll r)) ps)"
    using 4 by (intro allI impI)
  have c5: "\<not> env_fails env' FetchPolls_select \<longrightarrow> (\<exists>ps. fetchPolls env' ?db' = ApiSuccess ps)"
    using 5 by (intro impI)
  have c6: "\<forall>r. fetchPollById env' id' ?db' \<noteq> ApiSuccess r"
    using 6 by (intro allI)
  have c7: "\<not> env_fails env' FetchPollById_select \<longrightarrow>
           fetchPollById env' id' ?db' = ApiError ''Poll not found'' (Some ''POLL_NOT_FOUND'') None"
    using 7 by (intro impI)
  show ?thesis by (intro conjI) (rule 1 2 3 c4 c5 c6 c7)+
qed

theorem deletePoll_soft_delete_hides_poll_witness:
  "deletePoll example_env (Some \<lparr>au_id = ''u1''\<rparr>) ''p1'' example_voted_db
     = (ApiSuccess True, example_voted_db\<lparr>polls :=
          [\<lparr>p_id = ''p1'', p_title = ''Favorite color?'', p_description = None,
            p_is_active = False, p_created_by = ''u1'', p_created_at = 0,
            p_expires_at = None, p_updated_at = 100\<rparr>]\<rparr>)
   \<and> fetchPolls example_env (snd (deletePoll example_env (Some \<lparr>au_id = ''u1''\<rparr>) ''p1'' example_voted_db))
       = ApiSuccess []
   \<and> fetchPollById example_env ''p1''
        (snd (deletePoll example_env (Some \<lparr>au_id = ''u1''\<rparr>) ''p1'' example_voted_db))
       = ApiError ''Poll not found'' (Some ''POLL_NOT_FOUND'') None"
proof -
  have r: "deletePoll example_env (Some \<lparr>au_id = ''u1''\<rparr>) ''p1'' example_voted_db
     = (ApiSuccess True, example_voted_db\<lparr>polls :=
          [\<lparr>p_id = ''p1'', p_title = ''Favorite color?'', p_description = None,
            p_is_active = False, p_created_by = ''u1'', p_created_at = 0,
            p_expires_at = None, p_updated_at = 100\<rparr>]\<rparr>)"
    by (simp add: deletePoll_def deletePoll_try_def requireAuth_def example_voted_db_def
          example_polls single_def example_env_def update_poll_def createSuccessResponse_def)
  then have s: "fst (deletePoll example_env (Some \<lparr>au_id = ''u1''\<rparr>) ''p1'' example_voted_db) = ApiSuccess True"
    by simp
  have e: "\<not> env_fails example_env FetchPolls_select" "\<not> env_fails example_env FetchPollById_select"
    by (simp_all add: example_env_def)
  have fp: "fetchPolls example_env (snd (deletePoll example_env (Some \<lparr>au_id = ''u1''\<rparr>) ''p1'' example_voted_db))
       = ApiSuccess []"
    unfolding r by (simp add: fetchPolls_def example_env_def createSuccessResponse_def)
  note t = deletePoll_soft_delete_hides_poll[OF s, of example_env]
  from t[THEN conjunct2, THEN conjunct2, THEN conjunct2, THEN conjunct2, THEN conjunct2,
         THEN conjunct2, THEN conjunct2, THEN conjunct2, THEN mp, OF e(2)]
  have np: "fetchPollById example_env ''p1''
        (snd (deletePoll example_env (Some \<lparr>au_id = ''u1''\<rparr>) ''p1'' example_voted_db))
       = ApiError ''Poll not found'' (Some ''POLL_NOT_FOUND'') None" .
  show ?thesis by (intro conjI) (rule r, rule fp, rule np)
qed

section \<open>Voting again on the same poll\<close>

lemma split_distinct_key:
  assumes "distinct (map f zs)" "v \<in> set zs"
  shows "\<exists>xs ys. zs = xs @ v # ys \<and> f v \<notin> f ` set xs \<and> f v \<notin> f ` set ys"
proof -
  from split_list[OF assms(2)] obtain xs ys where z: "zs = xs @ v # ys" by blast
  with assms(1) have "f v \<notin> f ` set xs" "f v \<notin> f ` set ys" by auto
  with z show ?thesis by blast
qed

lemma revote_other: "(v_user_id w, v_poll_id w) \<noteq> (u, p) \<Longrightarrow> revote p u o' w = w"
  by (auto simp: revote_def)

lemma map_revote_others:
  "(u, p) \<notin> (\<lambda>w. (v_user_id w, v_poll_id w)) ` set ws \<Longrightarrow> map (revote p u o') ws = ws"
proof (induction ws)
  case Nil
  then show ?case by simp
next
  case (Cons w ws)
  then have "(v_user_id w, v_poll_id w) \<noteq> (u, p)" by auto
  with Cons show ?case by (simp add: revote_other)
qed

lemma filter_others:
  "(u, p) \<notin> (\<lambda>w. (v_user_id w, v_poll_id w)) ` set ws \<Longrightarrow>
   filter (\<lambda>w. v_user_id w = u \<and> v_poll_id w = p) ws = []"
proof (induction ws)
  case Nil
  then show ?case by simp
next
  case (Cons w ws)
  then have "(v_user_id w, v_poll_id w) \<noteq> (u, p)" by auto
  with Cons show ?case by auto
qed

lemma filter_others':
  "(u, p) \<notin> (\<lambda>w. (v_user_id w, v_poll_id w)) ` set ws \<Longrightarrow>
   filter (\<lambda>w. v_poll_id w = p \<and> v_user_id w = u) ws = []"
  using filter_others[of u p ws] by (simp add: conj_commute)

text \<open>
  In a session subject to row level security, a call of \<^verbatim>\<open>cast_vote\<close> for a user who
  has a vote on the poll changes nothing: it raises an error (the poll is reported
  inactive, or the policy of \<^verbatim>\<open>INSERT\<close> rejects the row), or the \<^verbatim>\<open>UPDATE\<close> of the
  handler matches no row and the call returns null.
\<close>

lemma cast_vote_subject_to_rls_keeps_vote:
  assumes "\<not> ss_bypassrls s" and "v \<in> set (votes db)" and "v_user_id v = u" and "v_poll_id v = p"
  shows "cast_vote s now new_id db p B u = Inr (None, db)
       \<or> cast_vote s now new_id db p B u = Inl (Raised ''Poll is not active'')
       \<or> cast_vote s now new_id db p B u = Inl Insufficient_privilege"
proof -
  have ins: "insert_vote db \<lparr>v_id = new_id, v_poll_id = p, v_option_id = B, v_user_id = u,
                             v_created_at = now\<rparr> = Inl Unique_violation"
    unfolding insert_vote_def using assms(2,3,4) by (auto simp: image_iff)
  have upd: "update_vote_option s db B p u = Inr ([], db)"
    unfolding update_vote_option_def using assms(1) by simp
  show ?thesis
    unfolding cast_vote_def insert_vote_as_def by (simp add: ins upd)
qed

text \<open>
  Claim C2, amended. Through the store function \<^verbatim>\<open>cast_vote\<close>, called in a session that
  is exempt from row level security: when the user has a vote for option \<open>A\<close> on the
  poll, \<^verbatim>\<open>is_poll_active\<close> does not report the poll inactive, and \<open>B\<close> is an existing
  option other than \<open>A\<close>, the call returns the id of the existing vote and leaves exactly
  one vote row for the user and the poll, now referencing \<open>B\<close>; the poll's number of votes
  is unchanged, the count of \<open>A\<close> decreases by 1 and the count of \<open>B\<close> increases by 1.
  \<^verbatim>\<open>PollService.castVote\<close> in the same situation never succeeds and leaves the store
  unchanged.
\<close>

theorem cast_vote_changes_existing_vote:
  assumes "ss_bypassrls s"
    and "unique_user_poll_vote db" and "v \<in> set (votes db)"
    and "v_user_id v = u" and "v_poll_id v = p" and "v_option_id v = A"
    and "B \<in> set (map po_id (poll_options db))" and "A \<noteq> B"
    and "is_poll_active now db p \<noteq> Some False"
  shows "cast_vote s now new_id db p B u
           = Inr (Some (v_id v), db\<lparr>votes := map (revote p u B) (votes db)\<rparr>)
       \<and> votes_of (db\<lparr>votes := map (revote p u B) (votes db)\<rparr>) u p = [v\<lparr>v_option_id := B\<rparr>]
       \<and> poll_total (db\<lparr>votes := map (revote p u B) (votes db)\<rparr>) p = poll_total db p
       \<and> option_votes (db\<lparr>votes := map (revote p u B) (votes db)\<rparr>) A + 1 = option_votes db A
       \<and> option_votes (db\<lparr>votes := map (revote p u B) (votes db)\<rparr>) B = option_votes db B + 1
       \<and> snd (castVote env (Some \<lparr>au_id = u\<rparr>) p B db) = db
       \<and> (\<forall>r. fst (castVote env (Some \<lparr>au_id = u\<rparr>) p B db) \<noteq> ApiSuccess r)"
proof -
  let ?key = "\<lambda>w. (v_user_id w, v_poll_id w)"
  note bypass = assms(1) and uniq = assms(2) and v = assms(3) and vu = assms(4) and vp = assms(5)
    and vA = assms(6) and B = assms(7) and AB = assms(8) and active = assms(9)
  from split_distinct_key[OF uniq[unfolded unique_user_poll_vote_def] v]
  obtain xs ys where z: "votes db = xs @ v # ys"
    and nx: "?key v \<notin> ?key ` set xs" and ny: "?key v \<notin> ?key ` set ys" by blast
  have kv: "?key v = (u, p)" using vu vp by simp
  note nx' = nx[unfolded kv] and ny' = ny[unfolded kv]
  have rv: "revote p u B v = v\<lparr>v_option_id := B\<rparr>" using vu vp by (simp add: revote_def)
  have m: "map (revote p u B) (votes db) = xs @ v\<lparr>v_option_id := B\<rparr> # ys"
    unfolding z by (simp add: map_revote_others[OF nx'] map_revote_others[OF ny'] rv)
  have hit: "filter (\<lambda>w. v_poll_id w = p \<and> v_user_id w = u) (votes db) = [v]"
    unfolding z using vu vp by (simp add: filter_others'[OF nx'] filter_others'[OF ny'])
  have ins: "insert_vote db \<lparr>v_id = new_id, v_poll_id = p, v_option_id = B, v_user_id = u,
                             v_created_at = now\<rparr> = Inl Unique_violation"
    unfolding insert_vote_def using v vu vp by (auto simp: image_iff)
  have upd: "update_vote_option s db B p u
               = Inr ([v_id v], db\<lparr>votes := map (revote p u B) (votes db)\<rparr>)"
    unfolding update_vote_option_def Let_def hit using B bypass
    by (simp add: revote_def[abs_def])
  have 1: "cast_vote s now new_id db p B u
           = Inr (Some (v_id v), db\<lparr>votes := map (revote p u B) (votes db)\<rparr>)"
    unfolding cast_vote_def insert_vote_as_def using active bypass by (simp add: ins upd)
  have 2: "votes_of (db\<lparr>votes := map (revote p u B) (votes db)\<rparr>) u p = [v\<lparr>v_option_id := B\<rparr>]"
    unfolding votes_of_def using vu vp by (simp add: m filter_others[OF nx'] filter_others[OF ny'])
  have 3: "poll_total (db\<lparr>votes := map (revote p u B) (votes db)\<rparr>) p = poll_total db p"
    unfolding poll_total_def by (simp add: m) (simp add: z)
  have 4: "option_votes (db\<lparr>votes := map (revote p u B) (votes db)\<rparr>) A + 1 = option_votes db A"
    unfolding option_votes_def using vA AB by (simp add: m) (simp add: z)
  have 5: "option_votes (db\<lparr>votes := map (revote p u B) (votes db)\<rparr>) B = option_votes db B + 1"
    unfolding option_votes_def using vA AB by (simp add: m) (simp add: z)
  have sv: "single (filter (\<lambda>w. v_poll_id w = p \<and> v_user_id w = u) (votes db)) = Some v"
    using hit by (simp add: single_def)
  have iv: "insert_vote db \<lparr>v_id = env_new_vote_id env, v_poll_id = p, v_option_id = B,
               v_user_id = u, v_created_at = env_now env\<rparr> = Inl Unique_violation"
    unfolding insert_vote_def using v vu vp by (auto simp: image_iff)
  have 6: "snd (castVote env (Some \<lparr>au_id = u\<rparr>) p B db) = db
           \<and> (\<forall>r. fst (castVote env (Some \<lparr>au_id = u\<rparr>) p B db) \<noteq> ApiSuccess r)"
    unfolding castVote_def castVote_try_def
    by (simp add: sv iv requireAuth_def Let_def catch_block_PollOperationError
          split: option.splits)
  show ?thesis using 1 2 3 4 5 6 by (intro conjI) simp_all
qed


lemma example_votes:
  "votes example_voted_db =
     [\<lparr>v_id = ''v1'', v_poll_id = ''p1'', v_option_id = ''oB'', v_user_id = ''u2'', v_created_at = 1\<rparr>,
      \<lparr>v_id = ''v3'', v_poll_id = ''p1'', v_option_id = ''oA'', v_user_id = ''u3'', v_created_at = 3\<rparr>,
      \<lparr>v_id = ''v5'', v_poll_id = ''p1'', v_option_id = ''oB'', v_user_id = ''u1'', v_created_at = 5\<rparr>]"
  by (simp add: example_voted_db_def)

theorem cast_vote_changes_existing_vote_witness:
  "ss_bypassrls \<lparr>ss_bypassrls = True, ss_uid = None\<rparr>
   \<and> unique_user_poll_vote example_voted_db
   \<and> hd (votes example_voted_db) \<in> set (votes example_voted_db)
   \<and> v_user_id (hd (votes example_voted_db)) = ''u2''
   \<and> v_poll_id (hd (votes example_voted_db)) = ''p1''
   \<and> v_option_id (hd (votes example_voted_db)) = ''oB''
   \<and> ''oA'' \<in> set (map po_id (poll_options example_voted_db))
   \<and> is_poll_active 7 example_voted_db ''p1'' = Some True
   \<and> cast_vote \<lparr>ss_bypassrls = True, ss_uid = None\<rparr> 7 ''v7'' example_voted_db ''p1'' ''oA'' ''u2''
       = Inr (Some ''v1'', example_voted_db\<lparr>votes := map (revote ''p1'' ''u2'' ''oA'') (votes example_voted_db)\<rparr>)
   \<and> option_votes example_voted_db ''oB'' = 2
   \<and> option_votes (example_voted_db\<lparr>votes := map (revote ''p1'' ''u2'' ''oA'') (votes example_voted_db)\<rparr>) ''oB'' = 1
   \<and> poll_total (example_voted_db\<lparr>votes := map (revote ''p1'' ''u2'' ''oA'') (votes example_voted_db)\<rparr>) ''p1'' = 3"
proof -
  let ?v = "hd (votes example_voted_db)"
  have 1: "unique_user_poll_vote example_voted_db"
    by (simp add: unique_user_poll_vote_def example_votes)
  have 2: "?v \<in> set (votes example_voted_db)" by (simp add: example_votes)
  have 3: "v_user_id ?v = ''u2''" "v_poll_id ?v = ''p1''" "v_option_id ?v = ''oB''" "v_id ?v = ''v1''"
    by (simp_all add: example_votes)
  have 6: "''oA'' \<in> set (map po_id (poll_options example_voted_db))"
    by (simp add: example_voted_db_def example_db_def)
  have 7: "''oB'' \<noteq> ''oA''" by simp
  have a: "is_poll_active 7 example_voted_db ''p1'' = Some True"
    by (simp add: is_poll_active_def example_voted_db_def example_polls)
  then have 8: "is_poll_active 7 example_voted_db ''p1'' \<noteq> Some False" by simp
  have b: "option_votes example_voted_db ''oB'' = 2" "poll_total example_voted_db ''p1'' = 3"
    by (simp_all add: option_votes_def poll_total_def example_votes)
  have 0: "ss_bypassrls \<lparr>ss_bypassrls = True, ss_uid = None\<rparr>" by simp
  from cast_vote_changes_existing_vote[OF 0 1 2 3(1,2,3) 6 7 8, of "''v7''" example_env]
  show ?thesis using 1 2 3 6 a b by simp
qed

text \<open>
  Claim C2 as stated fails: \<^verbatim>\<open>PollService.castVote\<close> by a user who has voted for one
  option of the poll, for another option of the same poll, returns \<^verbatim>\<open>ALREADY_VOTED\<close>;
  the vote row keeps its option.
\<close>

theorem castVote_second_vote_already_voted:
  "map v_option_id (votes_of example_voted_db ''u2'' ''p1'') = [''oB'']
   \<and> castVote example_env (Some \<lparr>au_id = ''u2''\<rparr>) ''p1'' ''oA'' example_voted_db
       = (ApiError ''You have already voted on this poll'' (Some ''ALREADY_VOTED'') None,
          example_voted_db)"
  by code_simp

section \<open>Removal of options\<close>

subsection \<open>The routes of \<^verbatim>\<open>app/api/polls/[id]/route.ts\<close>\<close>
































































text \<open>
  The replacement of the options in \<^verbatim>\<open>updatePoll\<close> (the delete of all options of the
  poll, then the insert of the new list) has no test on the votes. It is not reached in the
  module as written. With \<^verbatim>\<open>validateEditPollFormData\<close> bound, a call of the owner with
  two new options deletes the options of the poll and, by the cascade, their votes; the
  insert of the new list is rejected.
\<close>

lemma updatePoll_with_validation_bound:
  "updatePoll (Some validateEditPollFormData) example_env (Some \<lparr>au_id = ''u1''\<rparr>) ''p1''
      example_edit example_voted_db
     = (ApiError ''Failed to update poll options: '' (Some ''UPDATE_ERROR'') None,
        example_voted_db
          \<lparr>polls := [\<lparr>p_id = ''p1'', p_title = ''Colour'', p_description = None,
                       p_is_active = True, p_created_by = ''u1'', p_created_at = 0,
                       p_expires_at = None, p_updated_at = 100\<rparr>],
           poll_options := [], votes := []\<rparr>)"
  by code_simp

end
